theory Spec2Isabelle
  imports Complex_Main
begin

section \<open>Data model (models/Payment.ts, models/File.ts, models/User.ts)\<close>

text \<open>
  The three Mongoose schemas the payment workflow reads and writes. A field that is
  absent (\<open>undefined\<close>) is \<open>None\<close>. Document ids are strings. The fields
  \<open>upiId\<close>, \<open>payoutUtr\<close> and \<open>updatedAt\<close> of a payment are never read
  by the controllers below and are left out.
\<close>

datatype payment_status = Pending | Processing | Completed | Failed | Refunded

datatype payout_status =
  PayoutPending | PayoutProcessing | PayoutCompleted | PayoutFailed | PayoutNotRequired

datatype file_status = Uploading | FileProcessing | Ready | Delivered | FileFailed

record payment =
  pid :: string
  fileId :: string
  creatorId :: string
  clientId :: string
  amount :: rat
  currency :: string
  status :: payment_status
  paymentMethod :: string
  cashfreeOrderId :: "string option"
  cashfreePaymentId :: "string option"
  transactionId :: "string option"
  failureReason :: "string option"
  paidAt :: "nat option"
  platformCommission :: rat
  creatorShare :: rat
  payoutStatus :: payout_status
  payoutId :: "string option"
  payoutTransferId :: "string option"
  payoutAt :: "nat option"
  payoutFailureReason :: "string option"
  creatorUpiPhone :: "string option"
  createdAt :: nat

record file_doc =
  f_id :: string
  f_creatorId :: string
  f_originalName :: string
  f_s3Key :: string
  f_status :: file_status
  f_isPublic :: bool
  f_price :: rat
  f_currency :: string

record user =
  u_id :: string
  u_name :: string
  u_email :: string
  u_phone :: "string option"
  u_upiId :: "string option"

datatype level = Info | Warn | Error

text \<open>
  The state the handlers act on: the three collections in insertion order and the lines
  \<open>logger\<close> has written, each with its level and the text of the source's message up to
  its first interpolated value, without the emoji.
\<close>

record world =
  payments :: "payment list"
  files :: "file_doc list"
  users :: "user list"
  logs :: "(level \<times> string) list"

definition logger :: "level \<Rightarrow> string \<Rightarrow> world \<Rightarrow> world" where
  "logger lv msg w = w\<lparr>logs := logs w @ [(lv, msg)]\<rparr>"

text \<open>Module constants of config/cashfree.ts, read from the process environment at start.\<close>

record config =
  CASHFREE_CONFIGURED :: bool
  PLATFORM_COMMISSION_RATE :: rat
  PAYMENT_RETURN_URL :: string
  PAYMENT_WEBHOOK_URL :: string

text \<open>
  What one request draws from its surroundings: the ObjectId of a new document, the clock
  (\<open>Date.now()\<close>, \<open>new Date()\<close>) and two draws of
  \<open>Math.random().toString(36).substring(...)\<close>.
\<close>

record env =
  objectId :: string
  date_now :: nat
  random1 :: string
  random2 :: string

datatype exn =
    TypeError
  | ValidationError
  | DuplicateKeyError
  | DocumentNotFoundError
  | GatewayError "string option"
  | StorageError

text \<open>\<open>error.message\<close>; the texts of the library errors are placeholders.\<close>

fun exn_message :: "exn \<Rightarrow> string" where
  "exn_message TypeError = ''Cannot read properties of undefined''"
| "exn_message ValidationError = ''Payment validation failed''"
| "exn_message DuplicateKeyError = ''E11000 duplicate key error''"
| "exn_message DocumentNotFoundError = ''No document found for query''"
| "exn_message (GatewayError m) = ''Request failed''"
| "exn_message StorageError = ''Storage error''"

datatype resp_body =
    NoBody
  | ErrorText string
  | ValidationErrors "string list"
  | OrderCreated string rat string payment_status string string string
  | DownloadUrl string
  | RequiresPayment rat string

text \<open>\<open>res.status(code).json({success, message, data | error})\<close>\<close>

datatype response = Response nat bool string resp_body

section \<open>JavaScript and Mongoose helpers\<close>

text \<open>Truthiness of an optional string: \<open>undefined\<close> and \<open>''\<close> are falsy.\<close>

definition truthy :: "string option \<Rightarrow> bool" where
  "truthy a = (case a of None \<Rightarrow> False | Some s \<Rightarrow> s \<noteq> [])"

text \<open>\<open>a || b\<close>\<close>

definition js_or :: "string option \<Rightarrow> string option \<Rightarrow> string option" where
  "js_or a b = (if truthy a then a else b)"

text \<open>\<open>a || 'literal'\<close>\<close>

definition js_or_default :: "string option \<Rightarrow> string \<Rightarrow> string" where
  "js_or_default a d = (case a of None \<Rightarrow> d | Some s \<Rightarrow> if s = [] then d else s)"

text \<open>\<open>String.prototype.toLowerCase\<close> on the ASCII letters.\<close>

definition lower_char :: "char \<Rightarrow> char" where
  "lower_char c =
     (let n = (of_char c :: nat) in if 65 \<le> n \<and> n \<le> 90 then char_of (n + 32) else c)"

definition toLowerCase :: "string \<Rightarrow> string" where
  "toLowerCase s = map lower_char s"

text \<open>The schema option \<open>trim: true\<close>.\<close>

definition is_space :: "char \<Rightarrow> bool" where
  "is_space c = (c = CHR '' '' \<or> c = CHR 0x09 \<or> c = CHR 0x0A \<or> c = CHR 0x0D)"

definition trim :: "string \<Rightarrow> string" where
  "trim s = rev (dropWhile is_space (rev (dropWhile is_space s)))"

text \<open>Decimal rendering of a timestamp inside a template string.\<close>

fun show_nat :: "nat \<Rightarrow> string" where
  "show_nat n =
     (if n < 10 then [char_of (48 + n)]
      else show_nat (n div 10) @ [char_of (48 + n mod 10)])"

declare show_nat.simps [simp del]

text \<open>Queries return the first matching document in natural order.\<close>

definition findById_file :: "file_doc list \<Rightarrow> string \<Rightarrow> file_doc option" where
  "findById_file fs i = find (\<lambda>f. f_id f = i) fs"

definition findById_user :: "user list \<Rightarrow> string \<Rightarrow> user option" where
  "findById_user us i = find (\<lambda>u. u_id u = i) us"

text \<open>
  \<open>Payment.findOne({ cashfreeOrderId: v })\<close>. With \<open>v\<close> undefined the filter is
  sent as null and matches a document that lacks the field, which is what equality on
  \<open>string option\<close> gives.
\<close>

definition findOne_cashfreeOrderId :: "payment list \<Rightarrow> string option \<Rightarrow> payment option" where
  "findOne_cashfreeOrderId ps v = find (\<lambda>p. cashfreeOrderId p = v) ps"

text \<open>\<open>Payment.findOne({ fileId, clientId, status: 'completed' })\<close>\<close>

definition findOne_completed :: "payment list \<Rightarrow> string \<Rightarrow> string \<Rightarrow> payment option" where
  "findOne_completed ps fi ci =
     find (\<lambda>p. fileId p = fi \<and> clientId p = ci \<and> status p = Completed) ps"

fun update_first :: "('a \<Rightarrow> bool) \<Rightarrow> ('a \<Rightarrow> 'a) \<Rightarrow> 'a list \<Rightarrow> 'a list" where
  "update_first P g [] = []"
| "update_first P g (x # xs) = (if P x then g x # xs else x # update_first P g xs)"

fun delete_first :: "('a \<Rightarrow> bool) \<Rightarrow> 'a list \<Rightarrow> 'a list" where
  "delete_first P [] = []"
| "delete_first P (x # xs) = (if P x then xs else x # delete_first P xs)"

definition findByIdAndDelete :: "payment list \<Rightarrow> string \<Rightarrow> payment list" where
  "findByIdAndDelete ps i = delete_first (\<lambda>p. pid p = i) ps"

text \<open>\<open>File.findByIdAndUpdate(id, { status })\<close>\<close>

definition findByIdAndUpdate_status :: "file_doc list \<Rightarrow> string \<Rightarrow> file_status \<Rightarrow> file_doc list" where
  "findByIdAndUpdate_status fs i st =
     update_first (\<lambda>f. f_id f = i) (\<lambda>f. f\<lparr>f_status := st\<rparr>) fs"

text \<open>
  The validators of paymentSchema that a value of this record can fail: the required
  strings, \<open>min: 0\<close> on the amount and the enum of \<open>paymentMethod\<close> (the two status
  enums hold by the types).
\<close>

definition payment_methods :: "string list" where
  "payment_methods = [''upi'', ''card'', ''netbanking'', ''wallet'']"

definition validate :: "payment \<Rightarrow> bool" where
  "validate p =
     (fileId p \<noteq> [] \<and> creatorId p \<noteq> [] \<and> clientId p \<noteq> [] \<and> currency p \<noteq> [] \<and>
      0 \<le> amount p \<and> paymentMethod p \<in> set payment_methods)"

text \<open>
  The indexes \<open>unique: true, sparse: true\<close> on cashfreeOrderId, cashfreePaymentId and
  transactionId: a write fails when another document holds the same present value.
\<close>

definition clash :: "string option \<Rightarrow> string option \<Rightarrow> bool" where
  "clash a b = (a \<noteq> None \<and> a = b)"

definition duplicate_key :: "payment \<Rightarrow> payment list \<Rightarrow> bool" where
  "duplicate_key p ps =
     list_ex (\<lambda>q. pid q \<noteq> pid p \<and>
        (clash (cashfreeOrderId p) (cashfreeOrderId q) \<or>
         clash (cashfreePaymentId p) (cashfreePaymentId q) \<or>
         clash (transactionId p) (transactionId q))) ps"

text \<open>
  \<open>paymentSchema.pre('save')\<close>: a new document without an order id gets
  \<open>uplink_${Date.now()}_${random}\<close>.
\<close>

definition pre_save :: "env \<Rightarrow> bool \<Rightarrow> payment \<Rightarrow> payment" where
  "pre_save e isNew p =
     (if isNew \<and> \<not> truthy (cashfreeOrderId p)
      then p\<lparr>cashfreeOrderId := Some (''uplink_'' @ show_nat (date_now e) @ ''_'' @ random1 e)\<rparr>
      else p)"

text \<open>\<open>payment.save()\<close> of a new document: validation, the hook, then the insert.\<close>

definition save_new :: "env \<Rightarrow> payment \<Rightarrow> payment list \<Rightarrow> exn + payment \<times> payment list" where
  "save_new e p ps =
     (if \<not> validate p then Inl ValidationError
      else let p' = pre_save e True p in
        if list_ex (\<lambda>q. pid q = pid p') ps \<or> duplicate_key p' ps then Inl DuplicateKeyError
        else Inr (p', ps @ [p']))"

text \<open>\<open>payment.save()\<close> of a stored document: validation, then the update by \<open>_id\<close>.\<close>

definition save :: "payment \<Rightarrow> payment list \<Rightarrow> exn + payment list" where
  "save p ps =
     (if \<not> validate p then Inl ValidationError
      else if duplicate_key p ps then Inl DuplicateKeyError
      else if \<not> list_ex (\<lambda>q. pid q = pid p) ps then Inl DocumentNotFoundError
      else Inr (update_first (\<lambda>q. pid q = pid p) (\<lambda>_. p) ps))"

section \<open>Commission split (paymentController.createPaymentOrder, lines 71-74)\<close>

text \<open>
  JavaScript numbers are read as exact rationals: the model follows the decimal
  arithmetic the source intends and leaves binary64 representation error aside.
  \<open>Math.round\<close> rounds to the nearest integer, a tie going up.
\<close>

definition Math_round :: "rat \<Rightarrow> rat" where
  "Math_round x = of_int \<lfloor>x + 1 / 2\<rfloor>"

text \<open>\<open>const platformCommission = Math.round(amount * PLATFORM_COMMISSION_RATE * 100) / 100\<close>\<close>

definition platformCommission_of :: "rat \<Rightarrow> rat \<Rightarrow> rat" where
  "platformCommission_of rate amt = Math_round (amt * rate * 100) / 100"

text \<open>\<open>const creatorShare = Math.round((amount - platformCommission) * 100) / 100\<close>\<close>

definition creatorShare_of :: "rat \<Rightarrow> rat \<Rightarrow> rat" where
  "creatorShare_of rate amt = Math_round ((amt - platformCommission_of rate amt) * 100) / 100"

section \<open>Order creation (paymentController.createPaymentOrder)\<close>

text \<open>The response type \<open>CreateOrderResponse\<close> of the gateway, as far as it is read.\<close>

record cf_order =
  r_order_id :: string
  r_cf_order_id :: string
  r_payment_session_id :: string

record order_request =
  order_amount :: rat
  order_currency :: string
  order_id :: "string option"
  customer_id :: string
  customer_name :: string
  customer_email :: string
  customer_phone :: string
  return_url :: string
  notify_url :: string
  tag_file_id :: string
  tag_file_name :: string
  tag_creator_id :: string

text \<open>\<open>new Payment({...})\<close>, lines 77-89.\<close>

definition new_Payment :: "config \<Rightarrow> env \<Rightarrow> file_doc \<Rightarrow> user \<Rightarrow> user \<Rightarrow> payment" where
  "new_Payment cfg e fl creator usr =
     \<lparr> pid = objectId e,
       fileId = f_id fl,
       creatorId = u_id creator,
       clientId = u_id usr,
       amount = f_price fl,
       currency = ''INR'',
       status = Pending,
       paymentMethod = ''upi'',
       cashfreeOrderId = None,
       cashfreePaymentId = None,
       transactionId = None,
       failureReason = None,
       paidAt = None,
       platformCommission = platformCommission_of (PLATFORM_COMMISSION_RATE cfg) (f_price fl),
       creatorShare = creatorShare_of (PLATFORM_COMMISSION_RATE cfg) (f_price fl),
       payoutStatus = PayoutPending,
       payoutId = None,
       payoutTransferId = None,
       payoutAt = None,
       payoutFailureReason = None,
       creatorUpiPhone = (if truthy (u_phone creator) then map_option trim (u_phone creator) else None),
       createdAt = date_now e \<rparr>"

text \<open>The \<open>orderRequest\<close> literal, lines 98-117.\<close>

definition orderRequest :: "config \<Rightarrow> payment \<Rightarrow> file_doc \<Rightarrow> user \<Rightarrow> user \<Rightarrow> order_request" where
  "orderRequest cfg p fl creator usr =
     \<lparr> order_amount = amount p,
       order_currency = ''INR'',
       order_id = cashfreeOrderId p,
       customer_id = u_id usr,
       customer_name = u_name usr,
       customer_email = u_email usr,
       customer_phone = js_or_default (u_phone usr) ''9999999999'',
       return_url = PAYMENT_RETURN_URL cfg,
       notify_url = PAYMENT_WEBHOOK_URL cfg,
       tag_file_id = f_id fl,
       tag_file_name = f_originalName fl,
       tag_creator_id = u_id creator \<rparr>"

text \<open>
  The \<open>catch (cashfreeError)\<close> block, lines 148-159: the payment record is deleted and
  the answer is 500.
\<close>

definition order_failed :: "exn \<Rightarrow> payment \<Rightarrow> world \<Rightarrow> response \<times> world" where
  "order_failed err p w =
     (let w1 = logger Error ''Cashfree order creation failed:'' w;
          w2 = w1\<lparr>payments := findByIdAndDelete (payments w1) (pid p)\<rparr>
      in (Response 500 False ''Failed to create payment order''
            (ErrorText (case err of
                GatewayError m \<Rightarrow> js_or_default m ''Payment gateway error''
              | _ \<Rightarrow> ''Payment gateway error'')), w2))"

text \<open>
  The inner \<open>try\<close> block, lines 97-147: the gateway call \<open>createCashfreeOrder\<close> of
  config/cashfree.ts is the parameter \<open>gw\<close>, which returns the order or throws (the lines
  it logs itself are not recorded).
\<close>

definition place_order ::
  "config \<Rightarrow> (order_request \<Rightarrow> exn + cf_order) \<Rightarrow> payment \<Rightarrow> file_doc \<Rightarrow> user \<Rightarrow> user \<Rightarrow> world
     \<Rightarrow> response \<times> world" where
  "place_order cfg gw p fl creator usr w =
     (let w1 = logger Info ''Creating Cashfree order:'' w in
      case gw (orderRequest cfg p fl creator usr) of
        Inl err \<Rightarrow> order_failed err p w1
      | Inr resp \<Rightarrow>
          (let w2 = logger Info ''Cashfree order created successfully:'' w1;
               p' = p\<lparr>cashfreeOrderId := Some (r_cf_order_id resp)\<rparr>
           in case save p' (payments w2) of
                Inl err \<Rightarrow> order_failed err p' w2
              | Inr ps \<Rightarrow>
                  (Response 201 True ''Payment order created successfully''
                     (OrderCreated (pid p') (amount p') (currency p') (status p')
                        (r_cf_order_id resp) (r_payment_session_id resp) (r_order_id resp)),
                   w2\<lparr>payments := ps\<rparr>)))"

text \<open>
  The handler. \<open>errs\<close> is \<open>validationResult(req).array()\<close>, \<open>fileId'\<close> is
  \<open>req.body.fileId\<close> and \<open>usr\<close> is \<open>req.user\<close>.
\<close>

definition createPaymentOrder ::
  "config \<Rightarrow> (order_request \<Rightarrow> exn + cf_order) \<Rightarrow> env \<Rightarrow> string list \<Rightarrow> string \<Rightarrow> user \<Rightarrow> world
     \<Rightarrow> response \<times> world" where
  "createPaymentOrder cfg gw e errs fileId' usr w =
     (if errs \<noteq> [] then (Response 400 False ''Validation failed'' (ValidationErrors errs), w)
      else if \<not> CASHFREE_CONFIGURED cfg then
        (Response 503 False ''Payment service is currently unavailable'' NoBody, w)
      else case findById_file (files w) fileId' of
        None \<Rightarrow> (Response 404 False ''File not found'' NoBody, w)
      | Some fl \<Rightarrow>
          if \<not> f_isPublic fl \<or> f_price fl = 0 \<or> f_price fl \<le> 0 then
            (Response 400 False ''File is not available for purchase'' NoBody, w)
          else if f_creatorId fl = u_id usr then
            (Response 400 False ''You cannot purchase your own file'' NoBody, w)
          else case findById_user (users w) (f_creatorId fl) of
            None \<Rightarrow> (Response 404 False ''Creator not found'' NoBody, w)
          | Some creator \<Rightarrow>
              (case save_new e (new_Payment cfg e fl creator usr) (payments w) of
                 Inl err \<Rightarrow>
                   (Response 500 False ''Payment order creation failed'' NoBody,
                    logger Error ''Create payment order error:'' w)
               | Inr (p, ps) \<Rightarrow>
                   place_order cfg gw p fl creator usr
                     (logger Info ''Amount:''
                        (logger Info ''Payment record created:'' (w\<lparr>payments := ps\<rparr>)))))"

section \<open>Webhook ingestion (paymentController.paymentWebhook and its handlers)\<close>

text \<open>
  The request body after \<open>express.json()\<close>: an object whose members may be absent. A
  member that is present and read as a string is a string; \<open>payment_method\<close> alone is
  also modelled when it is some other non-null value, on which \<open>.toLowerCase()\<close> throws.
\<close>

datatype js_value = JString string | JOther

record order_data =
  o_order_id :: "string option"
  o_cf_order_id :: "string option"

record payment_data =
  cf_payment_id :: "string option"
  payment_id :: "string option"
  bank_reference :: "string option"
  payment_method :: "js_value option"
  payment_message :: "string option"

record webhook_data =
  w_order :: "order_data option"
  w_payment :: "payment_data option"

record webhook_body =
  w_type :: "string option"
  w_data :: "webhook_data option"

text \<open>
  A \<open>try\<close> body stops at the first exception with the effects made so far: it returns
  the exception, if any, the payment object as mutated in memory, and the world.
\<close>

type_synonym payout_result = "exn option \<times> payment \<times> world"

text \<open>\<open>payment.payoutStatus = ...; await payment.save(); return\<close>\<close>

definition save_and_return :: "payment \<Rightarrow> world \<Rightarrow> payout_result" where
  "save_and_return p w =
     (case save p (payments w) of
        Inl err \<Rightarrow> (Some err, p, w)
      | Inr ps \<Rightarrow> (None, p, w\<lparr>payments := ps\<rparr>))"

text \<open>The \<open>try\<close> body of processCreatorPayout, lines 237-291.\<close>

definition payout_body :: "config \<Rightarrow> env \<Rightarrow> payment \<Rightarrow> world \<Rightarrow> payout_result" where
  "payout_body cfg e p w =
     (if \<not> CASHFREE_CONFIGURED cfg then
        save_and_return (p\<lparr>payoutStatus := PayoutNotRequired\<rparr>)
          (logger Warn ''Cashfree not configured, skipping payout'' w)
      else case findById_user (users w) (creatorId p) of
        None \<Rightarrow>
          save_and_return
            (p\<lparr>payoutStatus := PayoutFailed, payoutFailureReason := Some (trim ''Creator not found'')\<rparr>)
            (logger Error ''Creator not found for payout:'' w)
      | Some creator \<Rightarrow>
          if \<not> truthy (u_phone creator) \<and> \<not> truthy (u_upiId creator) then
            save_and_return
              (p\<lparr>payoutStatus := PayoutFailed,
                 payoutFailureReason := Some (trim ''Creator UPI details missing'')\<rparr>)
              (logger Warn ''Creator has no UPI phone/ID, skipping payout'' w)
          else
            (let w1 = logger Info ''Initiating payout to creator'' w;
                 p1 = p\<lparr>payoutStatus := PayoutProcessing\<rparr>
             in case save p1 (payments w1) of
                  Inl err \<Rightarrow> (Some err, p1, w1)
                | Inr ps1 \<Rightarrow>
                    (let p2 = p1\<lparr>payoutStatus := PayoutCompleted,
                                 payoutId := Some (''payout_'' @ show_nat (date_now e) @ ''_'' @ random1 e),
                                 payoutTransferId :=
                                   Some (''transfer_'' @ show_nat (date_now e) @ ''_'' @ random2 e),
                                 payoutAt := Some (date_now e)\<rparr>;
                         w2 = w1\<lparr>payments := ps1\<rparr>
                     in case save p2 (payments w2) of
                          Inl err \<Rightarrow> (Some err, p2, w2)
                        | Inr ps2 \<Rightarrow>
                            (None, p2, logger Info ''Payout completed:'' (w2\<lparr>payments := ps2\<rparr>)))))"

text \<open>
  processCreatorPayout: the body, and its \<open>catch\<close> block (lines 293-298), which marks the
  payout failed and saves again; an exception of that save leaves the function.
\<close>

definition processCreatorPayout :: "config \<Rightarrow> env \<Rightarrow> payment \<Rightarrow> world \<Rightarrow> exn option \<times> world" where
  "processCreatorPayout cfg e p w =
     (case payout_body cfg e p w of
        (None, p', w') \<Rightarrow> (None, w')
      | (Some err, p', w') \<Rightarrow>
          (let w1 = logger Error ''Error processing creator payout:'' w';
               p1 = p'\<lparr>payoutStatus := PayoutFailed,
                        payoutFailureReason :=
                          Some (trim (js_or_default (Some (exn_message err)) ''Payout processing error''))\<rparr>
           in case save p1 (payments w1) of
                Inl err' \<Rightarrow> (Some err', w1)
              | Inr ps \<Rightarrow> (None, w1\<lparr>payments := ps\<rparr>)))"

text \<open>\<open>paymentData.payment_method?.toLowerCase() || 'upi'\<close>\<close>

definition method_of :: "js_value option \<Rightarrow> exn + string" where
  "method_of m =
     (case m of
        None \<Rightarrow> Inr ''upi''
      | Some (JString s) \<Rightarrow> Inr (js_or_default (Some (toLowerCase s)) ''upi'')
      | Some JOther \<Rightarrow> Inl TypeError)"

text \<open>The assignments of lines 214-218 to the payment that was found.\<close>

definition success_update :: "env \<Rightarrow> payment_data \<Rightarrow> string \<Rightarrow> payment \<Rightarrow> payment" where
  "success_update e pd m p =
     p\<lparr>status := Completed,
       cashfreePaymentId := cf_payment_id pd,
       transactionId := js_or (payment_id pd) (bank_reference pd),
       paymentMethod := m,
       paidAt := Some (date_now e)\<rparr>"

text \<open>
  The \<open>try\<close> body of handlePaymentSuccess, lines 201-227: the result is the exception
  that left it, if any, and the world.
\<close>

definition success_body ::
  "config \<Rightarrow> env \<Rightarrow> webhook_data option \<Rightarrow> world \<Rightarrow> exn option \<times> world" where
  "success_body cfg e d w =
     (case d of
        None \<Rightarrow> (Some TypeError, w)
      | Some dat \<Rightarrow>
          (case w_order dat of
             None \<Rightarrow> (Some TypeError, w)
           | Some ord \<Rightarrow>
               (let w1 = logger Info ''Processing payment success:'' w in
                case findOne_cashfreeOrderId (payments w1) (o_cf_order_id ord) of
                  None \<Rightarrow> (None, logger Error ''Payment record not found for Cashfree order:'' w1)
                | Some p \<Rightarrow>
                    (case w_payment dat of
                       None \<Rightarrow> (Some TypeError, w1)
                     | Some pd \<Rightarrow>
                         (case method_of (payment_method pd) of
                            Inl err \<Rightarrow> (Some err, w1)
                          | Inr m \<Rightarrow>
                              (let p' = success_update e pd m p in
                               case save p' (payments w1) of
                                 Inl err \<Rightarrow> (Some err, w1)
                               | Inr ps \<Rightarrow>
                                   (let w2 = logger Info ''Payment completed:'' (w1\<lparr>payments := ps\<rparr>);
                                        w3 = w2\<lparr>files :=
                                               findByIdAndUpdate_status (files w2) (fileId p') Delivered\<rparr>
                                    in processCreatorPayout cfg e p' w3)))))))"

definition handlePaymentSuccess :: "config \<Rightarrow> env \<Rightarrow> webhook_data option \<Rightarrow> world \<Rightarrow> world" where
  "handlePaymentSuccess cfg e d w =
     (case success_body cfg e d w of
        (None, w') \<Rightarrow> w'
      | (Some err, w') \<Rightarrow> logger Error ''Error handling payment success:'' w')"

text \<open>handlePaymentFailure, lines 302-326.\<close>

definition failure_body :: "webhook_data option \<Rightarrow> world \<Rightarrow> exn option \<times> world" where
  "failure_body d w =
     (case d of
        None \<Rightarrow> (Some TypeError, w)
      | Some dat \<Rightarrow>
          (case w_order dat of
             None \<Rightarrow> (Some TypeError, w)
           | Some ord \<Rightarrow>
               (let w1 = logger Info ''Processing payment failure:'' w in
                case findOne_cashfreeOrderId (payments w1) (o_cf_order_id ord) of
                  None \<Rightarrow> (None, logger Error ''Payment record not found for order:'' w1)
                | Some p \<Rightarrow>
                    (let msg = (case w_payment dat of None \<Rightarrow> None | Some pd \<Rightarrow> payment_message pd);
                         p' = p\<lparr>status := Failed,
                                failureReason := Some (trim (js_or_default msg ''Payment failed'')),
                                payoutStatus := PayoutNotRequired\<rparr>
                     in case save p' (payments w1) of
                          Inl err \<Rightarrow> (Some err, w1)
                        | Inr ps \<Rightarrow> (None, logger Info ''Payment failed:'' (w1\<lparr>payments := ps\<rparr>))))))"

definition handlePaymentFailure :: "webhook_data option \<Rightarrow> world \<Rightarrow> world" where
  "handlePaymentFailure d w =
     (case failure_body d w of
        (None, w') \<Rightarrow> w'
      | (Some err, w') \<Rightarrow> logger Error ''Error handling payment failure:'' w')"

text \<open>handlePaymentDropped, lines 329-353.\<close>

definition dropped_body :: "webhook_data option \<Rightarrow> world \<Rightarrow> exn option \<times> world" where
  "dropped_body d w =
     (case d of
        None \<Rightarrow> (Some TypeError, w)
      | Some dat \<Rightarrow>
          (case w_order dat of
             None \<Rightarrow> (Some TypeError, w)
           | Some ord \<Rightarrow>
               (let w1 = logger Info ''Processing payment dropped:'' w in
                case findOne_cashfreeOrderId (payments w1) (o_cf_order_id ord) of
                  None \<Rightarrow> (None, logger Error ''Payment record not found for order:'' w1)
                | Some p \<Rightarrow>
                    (let p' = p\<lparr>status := Failed,
                                failureReason := Some (trim ''Payment dropped by user''),
                                payoutStatus := PayoutNotRequired\<rparr>
                     in case save p' (payments w1) of
                          Inl err \<Rightarrow> (Some err, w1)
                        | Inr ps \<Rightarrow> (None, logger Info ''Payment dropped:'' (w1\<lparr>payments := ps\<rparr>))))))"

definition handlePaymentDropped :: "webhook_data option \<Rightarrow> world \<Rightarrow> world" where
  "handlePaymentDropped d w =
     (case dropped_body d w of
        (None, w') \<Rightarrow> w'
      | (Some err, w') \<Rightarrow> logger Error ''Error handling payment dropped:'' w')"

text \<open>
  paymentWebhook, lines 170-196. The body is the object that \<open>express.json()\<close> leaves in
  \<open>req.body\<close>, so the destructuring of line 173 does not throw, and each handler returns
  normally, having caught its own exceptions: the \<open>try\<close> block always runs to its end.
\<close>

definition webhook_try :: "config \<Rightarrow> env \<Rightarrow> webhook_body \<Rightarrow> world \<Rightarrow> exn option \<times> world" where
  "webhook_try cfg e body w =
     (let w1 = logger Info ''Payment webhook received:'' w;
          w2 = (if w_type body = Some ''PAYMENT_SUCCESS_WEBHOOK'' then
                  handlePaymentSuccess cfg e (w_data body) w1
                else if w_type body = Some ''PAYMENT_FAILED_WEBHOOK'' then
                  handlePaymentFailure (w_data body) w1
                else if w_type body = Some ''PAYMENT_USER_DROPPED_WEBHOOK'' then
                  handlePaymentDropped (w_data body) w1
                else w1)
      in (None, w2))"

text \<open>The answer: 200 at the end of the \<open>try\<close> block, 500 from its \<open>catch\<close> (lines 189-195).\<close>

definition paymentWebhook :: "config \<Rightarrow> env \<Rightarrow> webhook_body \<Rightarrow> world \<Rightarrow> response \<times> world" where
  "paymentWebhook cfg e body w =
     (case webhook_try cfg e body w of
        (None, w') \<Rightarrow> (Response 200 True ''Webhook processed successfully'' NoBody, w')
      | (Some err, w') \<Rightarrow>
          (Response 500 False ''Webhook processing failed'' NoBody,
           logger Error ''Payment webhook error:'' w'))"

text \<open>A sequence of deliveries, each with its own surroundings, in order.\<close>

fun deliver :: "config \<Rightarrow> (env \<times> webhook_body) list \<Rightarrow> world \<Rightarrow> response list \<times> world" where
  "deliver cfg [] w = ([], w)"
| "deliver cfg ((e, body) # rest) w =
     (case paymentWebhook cfg e body w of
        (r, w') \<Rightarrow> (case deliver cfg rest w' of (rs, w'') \<Rightarrow> (r # rs, w'')))"

section \<open>Download authorisation (fileController.getDownloadUrl)\<close>

text \<open>
  \<open>generatePresignedDownloadUrl\<close> of config/aws.ts; the signer \<open>getSignedUrl\<close> is the
  parameter \<open>sign\<close>.
\<close>

definition generatePresignedDownloadUrl ::
  "(string \<Rightarrow> nat \<Rightarrow> exn + string) \<Rightarrow> string \<Rightarrow> nat \<Rightarrow> world \<Rightarrow> (exn + string) \<times> world" where
  "generatePresignedDownloadUrl sign key expiresIn w =
     (case sign key expiresIn of
        Inl err \<Rightarrow> (Inl err, logger Error ''Error generating presigned download URL:'' w)
      | Inr url \<Rightarrow> (Inr url, w))"

text \<open>The end of both granting paths: the signed URL, or the outer \<open>catch\<close> (500).\<close>

definition send_download_url ::
  "(string \<Rightarrow> nat \<Rightarrow> exn + string) \<Rightarrow> file_doc \<Rightarrow> world \<Rightarrow> response \<times> world" where
  "send_download_url sign fl w =
     (case generatePresignedDownloadUrl sign (f_s3Key fl) 3600 w of
        (Inl err, w') \<Rightarrow>
          (Response 500 False ''Failed to generate download URL'' NoBody,
           logger Error ''Get download URL error:'' w')
      | (Inr url, w') \<Rightarrow>
          (Response 200 True ''Download URL generated successfully'' (DownloadUrl url), w'))"

text \<open>getDownloadUrl, lines 1176-1256; \<open>i\<close> is \<open>req.params.id\<close>.\<close>

definition getDownloadUrl ::
  "(string \<Rightarrow> nat \<Rightarrow> exn + string) \<Rightarrow> string \<Rightarrow> user \<Rightarrow> world \<Rightarrow> response \<times> world" where
  "getDownloadUrl sign i usr w =
     (case findById_file (files w) i of
        None \<Rightarrow> (Response 404 False ''File not found'' NoBody, w)
      | Some fl \<Rightarrow>
          (let isCreator = (f_creatorId fl = u_id usr) in
           if isCreator then send_download_url sign fl w
           else if f_isPublic fl \<and> f_price fl \<noteq> 0 \<and> f_price fl > 0 then
             (case findOne_completed (payments w) (f_id fl) (u_id usr) of
                None \<Rightarrow>
                  (Response 402 False ''Payment required to download this file''
                     (RequiresPayment (f_price fl) (js_or_default (Some (f_currency fl)) ''INR'')), w)
              | Some completedPayment \<Rightarrow>
                  (let w1 = logger Info ''Payment verified for user'' w in
                   if \<not> f_isPublic fl \<and> \<not> isCreator then
                     (Response 403 False ''This file is private'' NoBody, w1)
                   else send_download_url sign fl w1))
           else if \<not> f_isPublic fl \<and> \<not> isCreator then
             (Response 403 False ''This file is private'' NoBody, w)
           else send_download_url sign fl w))"

section \<open>Notions the properties are stated with\<close>

text \<open>
  The value \<open>order.cf_order_id\<close> that each of the three handlers looks the payment up
  with (lines 202, 305, 332), when \<open>data\<close> and \<open>data.order\<close> are present.
\<close>

definition cfOrderId_of :: "webhook_body \<Rightarrow> string option option" where
  "cfOrderId_of body =
     (case w_data body of
        None \<Rightarrow> None
      | Some dat \<Rightarrow> (case w_order dat of None \<Rightarrow> None | Some ord \<Rightarrow> Some (o_cf_order_id ord)))"

text \<open>
  The exception, if any, that the handler chosen for an event catches and logs.
\<close>

definition handler_exception :: "config \<Rightarrow> env \<Rightarrow> webhook_body \<Rightarrow> world \<Rightarrow> exn option" where
  "handler_exception cfg e body w =
     (let w1 = logger Info ''Payment webhook received:'' w in
      if w_type body = Some ''PAYMENT_SUCCESS_WEBHOOK'' then fst (success_body cfg e (w_data body) w1)
      else if w_type body = Some ''PAYMENT_FAILED_WEBHOOK'' then fst (failure_body (w_data body) w1)
      else if w_type body = Some ''PAYMENT_USER_DROPPED_WEBHOOK'' then fst (dropped_body (w_data body) w1)
      else None)"

text \<open>
  A stored payment can be saved: it passes validation, it clashes with no other document on
  a unique index, and a document with its id exists.
\<close>

definition save_ok :: "payment \<Rightarrow> payment list \<Rightarrow> bool" where
  "save_ok p ps = (validate p \<and> \<not> duplicate_key p ps \<and> list_ex (\<lambda>q. pid q = pid p) ps)"

text \<open>The exception \<open>save\<close> throws when the payment cannot be saved.\<close>

definition save_error :: "payment \<Rightarrow> payment list \<Rightarrow> exn" where
  "save_error p ps =
     (if \<not> validate p then ValidationError
      else if duplicate_key p ps then DuplicateKeyError
      else DocumentNotFoundError)"

text \<open>The second payment is the first but for the five payout fields.\<close>

definition only_payout_changed :: "payment \<Rightarrow> payment \<Rightarrow> bool" where
  "only_payout_changed p p' =
     (pid p' = pid p \<and> fileId p' = fileId p \<and> creatorId p' = creatorId p \<and>
      clientId p' = clientId p \<and> amount p' = amount p \<and> currency p' = currency p \<and>
      status p' = status p \<and> paymentMethod p' = paymentMethod p \<and>
      cashfreeOrderId p' = cashfreeOrderId p \<and> cashfreePaymentId p' = cashfreePaymentId p \<and>
      transactionId p' = transactionId p \<and> failureReason p' = failureReason p \<and>
      paidAt p' = paidAt p \<and> platformCommission p' = platformCommission p \<and>
      creatorShare p' = creatorShare p \<and> creatorUpiPhone p' = creatorUpiPhone p \<and>
      createdAt p' = createdAt p)"

text \<open>
  What processCreatorPayout leaves behind when its saves succeed: the payment it stores
  last and the lines it logs.
\<close>

definition payout_outcome :: "config \<Rightarrow> env \<Rightarrow> user list \<Rightarrow> payment \<Rightarrow> payment" where
  "payout_outcome cfg e us p =
     (if \<not> CASHFREE_CONFIGURED cfg then p\<lparr>payoutStatus := PayoutNotRequired\<rparr>
      else case findById_user us (creatorId p) of
        None \<Rightarrow> p\<lparr>payoutStatus := PayoutFailed, payoutFailureReason := Some ''Creator not found''\<rparr>
      | Some creator \<Rightarrow>
          if \<not> truthy (u_phone creator) \<and> \<not> truthy (u_upiId creator) then
            p\<lparr>payoutStatus := PayoutFailed, payoutFailureReason := Some ''Creator UPI details missing''\<rparr>
          else
            p\<lparr>payoutStatus := PayoutCompleted,
              payoutId := Some (''payout_'' @ show_nat (date_now e) @ ''_'' @ random1 e),
              payoutTransferId := Some (''transfer_'' @ show_nat (date_now e) @ ''_'' @ random2 e),
              payoutAt := Some (date_now e)\<rparr>)"

definition payout_lines :: "config \<Rightarrow> user list \<Rightarrow> payment \<Rightarrow> (level \<times> string) list" where
  "payout_lines cfg us p =
     (if \<not> CASHFREE_CONFIGURED cfg then [(Warn, ''Cashfree not configured, skipping payout'')]
      else case findById_user us (creatorId p) of
        None \<Rightarrow> [(Error, ''Creator not found for payout:'')]
      | Some creator \<Rightarrow>
          if \<not> truthy (u_phone creator) \<and> \<not> truthy (u_upiId creator) then
            [(Warn, ''Creator has no UPI phone/ID, skipping payout'')]
          else [(Info, ''Initiating payout to creator''), (Info, ''Payout completed:'')])"

text \<open>The order token of every stored payment, by document id.\<close>

definition order_tokens :: "payment list \<Rightarrow> (string \<times> string option) list" where
  "order_tokens ps = map (\<lambda>p. (pid p, cashfreeOrderId p)) ps"

text \<open>
  Every call of processCreatorPayout writes exactly one of these four lines first, and
  nothing else writes them: their number in the log counts the payout triggers.
\<close>

definition payout_trigger_lines :: "string list" where
  "payout_trigger_lines =
     [''Cashfree not configured, skipping payout'', ''Creator not found for payout:'',
      ''Creator has no UPI phone/ID, skipping payout'', ''Initiating payout to creator'']"

definition payout_triggers :: "world \<Rightarrow> nat" where
  "payout_triggers w = length (filter (\<lambda>l. snd l \<in> set payout_trigger_lines) (logs w))"

text \<open>
  Following the spec's words (section 4.5), for comparison with \<open>findOne_completed\<close>:
  the most recent PaymentIntent for a file and a requester, by \<open>createdAt\<close>, and the
  verdict "Authorized iff its state is Completed".
\<close>

definition spec_most_recent_intent :: "payment list \<Rightarrow> string \<Rightarrow> string \<Rightarrow> payment option" where
  "spec_most_recent_intent ps fi ci =
     (case filter (\<lambda>p. fileId p = fi \<and> clientId p = ci) ps of
        [] \<Rightarrow> None
      | x # xs \<Rightarrow> Some (fold (\<lambda>p best. if createdAt best < createdAt p then p else best) xs x))"

definition spec_paid_download_authorized :: "payment list \<Rightarrow> string \<Rightarrow> string \<Rightarrow> bool" where
  "spec_paid_download_authorized ps fi ci =
     (case spec_most_recent_intent ps fi ci of None \<Rightarrow> False | Some p \<Rightarrow> status p = Completed)"

section \<open>A concrete marketplace\<close>

text \<open>
  Alice sells a public file for 500 at a commission of 10 percent; Bob buys it. Carol, a
  second creator, has registered neither a phone number nor a UPI id.
\<close>

definition alice :: user where
  "alice = \<lparr>u_id = ''u1'', u_name = ''Alice'', u_email = ''alice@uplink.test'',
     u_phone = Some ''9876543210'', u_upiId = None\<rparr>"

definition bob :: user where
  "bob = \<lparr>u_id = ''u2'', u_name = ''Bob'', u_email = ''bob@uplink.test'',
     u_phone = None, u_upiId = None\<rparr>"

definition carol :: user where
  "carol = \<lparr>u_id = ''u3'', u_name = ''Carol'', u_email = ''carol@uplink.test'',
     u_phone = None, u_upiId = None\<rparr>"

definition photo :: file_doc where
  "photo = \<lparr>f_id = ''f1'', f_creatorId = ''u1'', f_originalName = ''photo.png'', f_s3Key = ''files/k1'',
     f_status = Ready, f_isPublic = True, f_price = 500, f_currency = ''INR''\<rparr>"

definition sketch :: file_doc where
  "sketch = \<lparr>f_id = ''f2'', f_creatorId = ''u3'', f_originalName = ''sketch.png'', f_s3Key = ''files/k2'',
     f_status = Ready, f_isPublic = True, f_price = 80, f_currency = ''INR''\<rparr>"

definition live :: config where
  "live = \<lparr>CASHFREE_CONFIGURED = True, PLATFORM_COMMISSION_RATE = 1 / 10,
     PAYMENT_RETURN_URL = ''http://localhost:8080/payment/callback'',
     PAYMENT_WEBHOOK_URL = ''http://localhost:5000/api/v1/payments/webhook''\<rparr>"

definition unconfigured :: config where
  "unconfigured = live\<lparr>CASHFREE_CONFIGURED := False\<rparr>"

definition shop :: world where
  "shop = \<lparr>payments = [], files = [photo, sketch], users = [alice, bob, carol], logs = []\<rparr>"

definition at_time :: "nat \<Rightarrow> string \<Rightarrow> env" where
  "at_time t i = \<lparr>objectId = i, date_now = t, random1 = ''k3x9'', random2 = ''q7m2''\<rparr>"

text \<open>A gateway that accepts every order under the given \<open>cf_order_id\<close>, and one that is down.\<close>

definition gateway_accepts :: "string \<Rightarrow> order_request \<Rightarrow> exn + cf_order" where
  "gateway_accepts cf r =
     Inr \<lparr>r_order_id = (case order_id r of None \<Rightarrow> [] | Some s \<Rightarrow> s), r_cf_order_id = cf,
          r_payment_session_id = ''session_'' @ cf\<rparr>"

definition gateway_down :: "order_request \<Rightarrow> exn + cf_order" where
  "gateway_down r = Inl (GatewayError None)"

definition signer :: "string \<Rightarrow> nat \<Rightarrow> exn + string" where
  "signer key expiresIn = Inr (''https://r2.test/'' @ key)"

definition payment_of :: "string \<Rightarrow> payment_data" where
  "payment_of cf =
     \<lparr>cf_payment_id = Some (''pay_'' @ cf), payment_id = None, bank_reference = Some (''bank_'' @ cf),
      payment_method = Some (JString ''UPI''), payment_message = None\<rparr>"

definition order_of :: "string \<Rightarrow> order_data" where
  "order_of cf = \<lparr>o_order_id = None, o_cf_order_id = Some cf\<rparr>"

definition success_event :: "string \<Rightarrow> webhook_body" where
  "success_event cf =
     \<lparr>w_type = Some ''PAYMENT_SUCCESS_WEBHOOK'',
      w_data = Some \<lparr>w_order = Some (order_of cf), w_payment = Some (payment_of cf)\<rparr>\<rparr>"

text \<open>A success event that names the order and carries no \<open>payment\<close> object.\<close>

definition bare_success_event :: "string \<Rightarrow> webhook_body" where
  "bare_success_event cf =
     \<lparr>w_type = Some ''PAYMENT_SUCCESS_WEBHOOK'',
      w_data = Some \<lparr>w_order = Some (order_of cf), w_payment = None\<rparr>\<rparr>"

definition failure_event :: "string \<Rightarrow> webhook_body" where
  "failure_event cf = (success_event cf)\<lparr>w_type := Some ''PAYMENT_FAILED_WEBHOOK''\<rparr>"

text \<open>
  The record that Bob's order of the photo inserts, and the same record once the gateway
  has named the order \<open>cf_1001\<close>.
\<close>

definition photo_order :: payment where
  "photo_order = pre_save (at_time 17 ''p1'') True (new_Payment live (at_time 17 ''p1'') photo alice bob)"

definition photo_payment :: payment where
  "photo_payment = photo_order\<lparr>cashfreeOrderId := Some ''cf_1001''\<rparr>"

text \<open>Bob has ordered the photo; the gateway named the order \<open>cf_1001\<close>.\<close>

definition ordered :: world where
  "ordered = snd (createPaymentOrder live (gateway_accepts ''cf_1001'') (at_time 17 ''p1'') [] ''f1'' bob shop)"

text \<open>Then the gateway has reported the payment.\<close>

definition paid :: world where
  "paid = snd (paymentWebhook live (at_time 23 ''-'') (success_event ''cf_1001'') ordered)"

text \<open>Then Bob has ordered the same photo once more; this newer order is still pending.\<close>

definition reordered :: world where
  "reordered = snd (createPaymentOrder live (gateway_accepts ''cf_1002'') (at_time 31 ''p2'') [] ''f1'' bob paid)"

text \<open>
  In another run Bob has ordered Carol's sketch; \<open>sketch_payment\<close> is the stored record
  and \<open>sketch_settled\<close> the store once the success event has been saved, before the payout.
\<close>

definition sketch_ordered :: world where
  "sketch_ordered =
     snd (createPaymentOrder live (gateway_accepts ''cf_2001'') (at_time 41 ''p9'') [] ''f2'' bob shop)"

definition sketch_payment :: payment where
  "sketch_payment =
     (pre_save (at_time 41 ''p9'') True (new_Payment live (at_time 41 ''p9'') sketch carol bob))
       \<lparr>cashfreeOrderId := Some ''cf_2001''\<rparr>"

definition sketch_paid :: payment where
  "sketch_paid = success_update (at_time 43 ''-'') (payment_of ''cf_2001'') ''upi'' sketch_payment"

definition sketch_settled :: world where
  "sketch_settled = sketch_ordered\<lparr>payments := [sketch_paid]\<rparr>"

section \<open>Properties\<close>

subsection \<open>Helper lemmas\<close>





lemma fst_send_download_url:
  "fst (send_download_url sign fl w) =
     (case sign (f_s3Key fl) 3600 of
        Inl err \<Rightarrow> Response 500 False ''Failed to generate download URL'' NoBody
      | Inr url \<Rightarrow> Response 200 True ''Download URL generated successfully'' (DownloadUrl url))"
  by (simp add: send_download_url_def generatePresignedDownloadUrl_def split: sum.splits)

lemma delete_first_append_last:
  "\<not> list_ex P xs \<Longrightarrow> P x \<Longrightarrow> delete_first P (xs @ [x]) = xs"
  by (induction xs) auto

lemma update_first_twice:
  "P a \<Longrightarrow> update_first P (\<lambda>_. b) (update_first P (\<lambda>_. a) xs) = update_first P (\<lambda>_. b) xs"
  by (induction xs) auto

lemma set_update_first: "set (update_first P (\<lambda>_. a) xs) \<subseteq> insert a (set xs)"
  by (induction xs) auto

lemma list_ex_update_first:
  "list_ex P xs \<Longrightarrow> P a \<Longrightarrow> list_ex P (update_first P (\<lambda>_. a) xs)"
  by (induction xs) auto

lemma map_pid_update_first:
  "pid a = i \<Longrightarrow> map pid (update_first (\<lambda>q. pid q = i) (\<lambda>_. a) xs) = map pid xs"
  by (induction xs) auto

lemma find_update_first:
  "find (\<lambda>q. cashfreeOrderId q = t) ps = Some p \<Longrightarrow> cashfreeOrderId a = t \<Longrightarrow> pid a = pid p \<Longrightarrow>
   find (\<lambda>q. cashfreeOrderId q = t) (update_first (\<lambda>q. pid q = pid p) (\<lambda>_. a) ps) = Some a"
  by (induction ps) (auto split: if_splits)

lemma order_tokens_update_first:
  "(pid a, cashfreeOrderId a) \<in> set (order_tokens ps) \<Longrightarrow> distinct (map pid ps) \<Longrightarrow>
   order_tokens (update_first (\<lambda>q. pid q = pid a) (\<lambda>_. a) ps) = order_tokens ps"
  by (induction ps) (auto simp: order_tokens_def rev_image_eqI)

lemma save_ok_save: "save_ok p ps \<Longrightarrow> save p ps = Inr (update_first (\<lambda>q. pid q = pid p) (\<lambda>_. p) ps)"
  by (simp add: save_ok_def save_def)

lemma save_ok_only_payout_changed:
  "only_payout_changed p p' \<Longrightarrow> save_ok p' ps = save_ok p ps"
  by (simp add: only_payout_changed_def save_ok_def validate_def duplicate_key_def)

lemma duplicate_key_update_first:
  assumes "\<not> duplicate_key p ps" and "pid a = pid p"
  shows "\<not> duplicate_key p (update_first (\<lambda>q. pid q = pid a) (\<lambda>_. a) ps)"
proof -
  have "set (update_first (\<lambda>q. pid q = pid a) (\<lambda>_. a) ps) \<subseteq> insert a (set ps)"
    by (rule set_update_first)
  then show ?thesis using assms unfolding duplicate_key_def list_ex_iff by blast
qed

lemma save_ok_update_first:
  assumes "save_ok p ps" and "pid a = pid p"
  shows "save_ok p (update_first (\<lambda>q. pid q = pid a) (\<lambda>_. a) ps)"
proof -
  have "list_ex (\<lambda>q. pid q = pid a) (update_first (\<lambda>q. pid q = pid a) (\<lambda>_. a) ps)"
    using assms by (intro list_ex_update_first) (simp_all add: save_ok_def)
  then show ?thesis
    using assms duplicate_key_update_first [of p ps a] by (simp add: save_ok_def)
qed

lemma trim_literals:
  "trim ''Creator not found'' = ''Creator not found''"
  "trim ''Creator UPI details missing'' = ''Creator UPI details missing''"
  "trim ''Payment dropped by user'' = ''Payment dropped by user''"
  by code_simp+

lemma payout_lines_count:
  "length (filter (\<lambda>l. snd l \<in> set payout_trigger_lines) (payout_lines cfg us p)) = 1"
  by (simp add: payout_lines_def payout_trigger_lines_def split: option.splits)

lemma payout_outcome_only:
  "only_payout_changed p (payout_outcome cfg e us p)"
  by (simp add: payout_outcome_def only_payout_changed_def split: option.splits)

lemma payout_body_ok:
  assumes ok: "save_ok p (payments w)"
  shows "payout_body cfg e p w =
            (None, payout_outcome cfg e (users w) p,
             w\<lparr>payments := update_first (\<lambda>q. pid q = pid p) (\<lambda>_. payout_outcome cfg e (users w) p) (payments w),
               logs := logs w @ payout_lines cfg (users w) p\<rparr>)"
proof -
  have upd: "\<And>p'. only_payout_changed p p' \<Longrightarrow> save_ok p' (payments w)"
    using ok by (simp add: save_ok_only_payout_changed)
  have sv: "\<And>p'. only_payout_changed p p' \<Longrightarrow>
              save p' (payments w) = Inr (update_first (\<lambda>q. pid q = pid p) (\<lambda>_. p') (payments w))"
  proof -
    fix p' assume c: "only_payout_changed p p'"
    then have "pid p' = pid p" by (simp add: only_payout_changed_def)
    then show "save p' (payments w) = Inr (update_first (\<lambda>q. pid q = pid p) (\<lambda>_. p') (payments w))"
      using save_ok_save [OF upd [OF c]] by simp
  qed
  consider (off) "\<not> CASHFREE_CONFIGURED cfg"
    | (nocreator) "CASHFREE_CONFIGURED cfg" "findById_user (users w) (creatorId p) = None"
    | (nodest) creator where "CASHFREE_CONFIGURED cfg"
        "findById_user (users w) (creatorId p) = Some creator"
        "\<not> truthy (u_phone creator) \<and> \<not> truthy (u_upiId creator)"
    | (pay) creator where "CASHFREE_CONFIGURED cfg"
        "findById_user (users w) (creatorId p) = Some creator"
        "\<not> (\<not> truthy (u_phone creator) \<and> \<not> truthy (u_upiId creator))"
    by (cases "findById_user (users w) (creatorId p)") auto
  then show ?thesis
  proof cases
    case off
    let ?p = "p\<lparr>payoutStatus := PayoutNotRequired\<rparr>"
    have c: "only_payout_changed p ?p" by (simp add: only_payout_changed_def)
    show ?thesis using off sv [OF c]
      by (simp add: payout_body_def save_and_return_def logger_def payout_outcome_def payout_lines_def)
  next
    case nocreator
    let ?p = "p\<lparr>payoutStatus := PayoutFailed, payoutFailureReason := Some ''Creator not found''\<rparr>"
    have c: "only_payout_changed p ?p" by (simp add: only_payout_changed_def)
    show ?thesis using nocreator sv [OF c]
      by (simp add: payout_body_def save_and_return_def logger_def payout_outcome_def payout_lines_def
            trim_literals)
  next
    case nodest
    let ?p = "p\<lparr>payoutStatus := PayoutFailed,
                 payoutFailureReason := Some ''Creator UPI details missing''\<rparr>"
    have c: "only_payout_changed p ?p" by (simp add: only_payout_changed_def)
    show ?thesis using nodest sv [OF c]
      by (simp add: payout_body_def save_and_return_def logger_def payout_outcome_def payout_lines_def
            trim_literals)
  next
    case pay
    let ?p1 = "p\<lparr>payoutStatus := PayoutProcessing\<rparr>"
    let ?p2 = "p\<lparr>payoutStatus := PayoutCompleted,
                 payoutId := Some (''payout_'' @ show_nat (date_now e) @ ''_'' @ random1 e),
                 payoutTransferId := Some (''transfer_'' @ show_nat (date_now e) @ ''_'' @ random2 e),
                 payoutAt := Some (date_now e)\<rparr>"
    let ?ps1 = "update_first (\<lambda>q. pid q = pid p) (\<lambda>_. ?p1) (payments w)"
    have c1: "only_payout_changed p ?p1" and c2: "only_payout_changed p ?p2"
      by (simp_all add: only_payout_changed_def)
    have s1: "save ?p1 (payments w) = Inr ?ps1" by (rule sv [OF c1])
    have "save_ok ?p2 ?ps1"
      using save_ok_update_first [of ?p2 "payments w" ?p1] upd [OF c2] by simp
    then have s2: "save ?p2 ?ps1 = Inr (update_first (\<lambda>q. pid q = pid p) (\<lambda>_. ?p2) (payments w))"
      using save_ok_save [of ?p2 ?ps1] by (simp add: update_first_twice)
    have o: "payout_outcome cfg e (users w) p = ?p2" and l: "payout_lines cfg (users w) p =
        [(Info, ''Initiating payout to creator''), (Info, ''Payout completed:'')]"
      using pay by (auto simp add: payout_outcome_def payout_lines_def)
    have p12: "?p1\<lparr>payoutStatus := PayoutCompleted,
                 payoutId := Some (''payout_'' @ show_nat (date_now e) @ ''_'' @ random1 e),
                 payoutTransferId := Some (''transfer_'' @ show_nat (date_now e) @ ''_'' @ random2 e),
                 payoutAt := Some (date_now e)\<rparr> = ?p2" by simp
    show ?thesis unfolding o l using pay s1 s2
      by (auto simp add: payout_body_def logger_def Let_def p12)
  qed
qed

lemma processCreatorPayout_ok:
  assumes ok: "save_ok p (payments w)"
  shows "processCreatorPayout cfg e p w =
            (None, w\<lparr>payments := update_first (\<lambda>q. pid q = pid p) (\<lambda>_. payout_outcome cfg e (users w) p) (payments w),
                      logs := logs w @ payout_lines cfg (users w) p\<rparr>)"
  by (simp add: processCreatorPayout_def payout_body_ok [OF ok])

lemma save_eq:
  "save p ps = (if save_ok p ps then Inr (update_first (\<lambda>q. pid q = pid p) (\<lambda>_. p) ps)
                else Inl (save_error p ps))"
  by (simp add: save_def save_ok_def save_error_def)

lemma save_ok_update_first_id:
  "save_ok p ps \<Longrightarrow> pid a = i \<Longrightarrow> pid p = i \<Longrightarrow>
   save_ok p (update_first (\<lambda>q. pid q = i) (\<lambda>_. a) ps)"
  using save_ok_update_first [of p ps a] by simp

lemma update_first_twice_id:
  "pid a = i \<Longrightarrow>
   update_first (\<lambda>q. pid q = i) (\<lambda>_. b) (update_first (\<lambda>q. pid q = i) (\<lambda>_. a) xs) =
   update_first (\<lambda>q. pid q = i) (\<lambda>_. b) xs"
  by (rule update_first_twice) simp

lemma success_update_fields:
  "pid (success_update e pd m p) = pid p"
  "fileId (success_update e pd m p) = fileId p"
  "creatorId (success_update e pd m p) = creatorId p"
  "cashfreeOrderId (success_update e pd m p) = cashfreeOrderId p"
  "status (success_update e pd m p) = Completed"
  by (simp_all add: success_update_def)

lemma success_body_eq:
  "success_body cfg e d w =
     (case d of
        None \<Rightarrow> (Some TypeError, w)
      | Some dat \<Rightarrow>
          (case w_order dat of
             None \<Rightarrow> (Some TypeError, w)
           | Some ord \<Rightarrow>
               (case findOne_cashfreeOrderId (payments w) (o_cf_order_id ord) of
                  None \<Rightarrow>
                    (None, w\<lparr>logs := logs w @ [(Info, ''Processing payment success:''),
                                 (Error, ''Payment record not found for Cashfree order:'')]\<rparr>)
                | Some p \<Rightarrow>
                    (case w_payment dat of
                       None \<Rightarrow> (Some TypeError, w\<lparr>logs := logs w @ [(Info, ''Processing payment success:'')]\<rparr>)
                     | Some pd \<Rightarrow>
                         (case method_of (payment_method pd) of
                            Inl err \<Rightarrow> (Some err, w\<lparr>logs := logs w @ [(Info, ''Processing payment success:'')]\<rparr>)
                          | Inr m \<Rightarrow>
                              if save_ok (success_update e pd m p) (payments w) then
                                (None,
                                 w\<lparr>payments := update_first (\<lambda>q. pid q = pid p)
                                      (\<lambda>_. payout_outcome cfg e (users w) (success_update e pd m p)) (payments w),
                                   files := findByIdAndUpdate_status (files w) (fileId p) Delivered,
                                   logs := logs w @ [(Info, ''Processing payment success:''),
                                      (Info, ''Payment completed:'')] @
                                      payout_lines cfg (users w) (success_update e pd m p)\<rparr>)
                              else
                                (Some (save_error (success_update e pd m p) (payments w)),
                                 w\<lparr>logs := logs w @ [(Info, ''Processing payment success:'')]\<rparr>))))))"
  unfolding success_body_def
  by (simp add: Let_def logger_def findOne_cashfreeOrderId_def save_eq processCreatorPayout_ok
        save_ok_update_first_id update_first_twice_id success_update_fields
        split: option.splits sum.splits)

lemma failure_body_eq:
  "failure_body d w =
     (case d of
        None \<Rightarrow> (Some TypeError, w)
      | Some dat \<Rightarrow>
          (case w_order dat of
             None \<Rightarrow> (Some TypeError, w)
           | Some ord \<Rightarrow>
               (case findOne_cashfreeOrderId (payments w) (o_cf_order_id ord) of
                  None \<Rightarrow>
                    (None, w\<lparr>logs := logs w @ [(Info, ''Processing payment failure:''),
                                 (Error, ''Payment record not found for order:'')]\<rparr>)
                | Some p \<Rightarrow>
                    (let msg = (case w_payment dat of None \<Rightarrow> None | Some pd \<Rightarrow> payment_message pd);
                         p' = p\<lparr>status := Failed,
                                failureReason := Some (trim (js_or_default msg ''Payment failed'')),
                                payoutStatus := PayoutNotRequired\<rparr>
                     in if save_ok p' (payments w) then
                          (None, w\<lparr>payments := update_first (\<lambda>q. pid q = pid p) (\<lambda>_. p') (payments w),
                                    logs := logs w @ [(Info, ''Processing payment failure:''),
                                       (Info, ''Payment failed:'')]\<rparr>)
                        else (Some (save_error p' (payments w)),
                              w\<lparr>logs := logs w @ [(Info, ''Processing payment failure:'')]\<rparr>)))))"
  unfolding failure_body_def
  by (simp add: Let_def logger_def findOne_cashfreeOrderId_def save_eq split: option.splits)

lemma dropped_body_eq:
  "dropped_body d w =
     (case d of
        None \<Rightarrow> (Some TypeError, w)
      | Some dat \<Rightarrow>
          (case w_order dat of
             None \<Rightarrow> (Some TypeError, w)
           | Some ord \<Rightarrow>
               (case findOne_cashfreeOrderId (payments w) (o_cf_order_id ord) of
                  None \<Rightarrow>
                    (None, w\<lparr>logs := logs w @ [(Info, ''Processing payment dropped:''),
                                 (Error, ''Payment record not found for order:'')]\<rparr>)
                | Some p \<Rightarrow>
                    (let p' = p\<lparr>status := Failed,
                                failureReason := Some ''Payment dropped by user'',
                                payoutStatus := PayoutNotRequired\<rparr>
                     in if save_ok p' (payments w) then
                          (None, w\<lparr>payments := update_first (\<lambda>q. pid q = pid p) (\<lambda>_. p') (payments w),
                                    logs := logs w @ [(Info, ''Processing payment dropped:''),
                                       (Info, ''Payment dropped:'')]\<rparr>)
                        else (Some (save_error p' (payments w)),
                              w\<lparr>logs := logs w @ [(Info, ''Processing payment dropped:'')]\<rparr>)))))"
  unfolding dropped_body_def
  by (simp add: Let_def logger_def findOne_cashfreeOrderId_def save_eq trim_literals split: option.splits)

lemma fst_paymentWebhook: "fst (paymentWebhook cfg e body w) = Response 200 True ''Webhook processed successfully'' NoBody"
  by (simp add: paymentWebhook_def webhook_try_def Let_def)

lemma fst_deliver:
  "fst (deliver cfg evs w) = map (\<lambda>_. Response 200 True ''Webhook processed successfully'' NoBody) evs"
proof (induction evs arbitrary: w)
  case Nil
  then show ?case by simp
next
  case (Cons ev evs)
  obtain e body where ev: "ev = (e, body)" by (cases ev)
  obtain r w' where r: "paymentWebhook cfg e body w = (r, w')" by (cases "paymentWebhook cfg e body w")
  then have "r = Response 200 True ''Webhook processed successfully'' NoBody"
    using fst_paymentWebhook [of cfg e body w] by simp
  then show ?case using Cons.IH [of w'] r ev by (auto split: prod.splits)
qed

lemma handler_worlds:
  "payments (handlePaymentSuccess cfg e d w) = payments (snd (success_body cfg e d w))"
  "files (handlePaymentSuccess cfg e d w) = files (snd (success_body cfg e d w))"
  "payments (handlePaymentFailure d w) = payments (snd (failure_body d w))"
  "files (handlePaymentFailure d w) = files (snd (failure_body d w))"
  "payments (handlePaymentDropped d w) = payments (snd (dropped_body d w))"
  "files (handlePaymentDropped d w) = files (snd (dropped_body d w))"
  by (simp_all add: handlePaymentSuccess_def handlePaymentFailure_def handlePaymentDropped_def
        logger_def split: prod.splits option.splits)

lemma success_body_exception:
  "fst (success_body cfg e d w) \<noteq> None \<Longrightarrow>
   payments (snd (success_body cfg e d w)) = payments w \<and> files (snd (success_body cfg e d w)) = files w"
  by (auto simp: success_body_eq split: option.splits sum.splits if_splits)

lemma failure_body_exception:
  "fst (failure_body d w) \<noteq> None \<Longrightarrow>
   payments (snd (failure_body d w)) = payments w \<and> files (snd (failure_body d w)) = files w"
  by (auto simp: failure_body_eq Let_def split: option.splits sum.splits if_splits)

lemma dropped_body_exception:
  "fst (dropped_body d w) \<noteq> None \<Longrightarrow>
   payments (snd (dropped_body d w)) = payments w \<and> files (snd (dropped_body d w)) = files w"
  by (auto simp: dropped_body_eq Let_def split: option.splits sum.splits if_splits)

lemma save_new_Inr:
  assumes "save_new e p ps = Inr (p', ps')"
  shows "p' = pre_save e True p \<and> ps' = ps @ [p'] \<and> \<not> list_ex (\<lambda>q. pid q = pid p') ps"
  using assms by (auto simp: save_new_def Let_def split: if_splits)

lemma pre_save_fields: "pid (pre_save e b p) = pid p" "status (pre_save e b p) = status p"
  by (simp_all add: pre_save_def)

lemma order_failed_payments:
  "payments (snd (order_failed err p w)) = findByIdAndDelete (payments w) (pid p)"
  "\<exists>body. fst (order_failed err p w) = Response 500 False ''Failed to create payment order'' body"
  by (simp_all add: order_failed_def Let_def logger_def)

lemma find_update_first_same:
  "find P (update_first P g xs) = map_option g (find P xs)" if "\<And>x. P x \<Longrightarrow> P (g x)"
  using that by (induction xs) auto

lemma findById_file_updated:
  "findById_file (findByIdAndUpdate_status fs i st) i = map_option (\<lambda>f. f\<lparr>f_status := st\<rparr>) (findById_file fs i)"
  unfolding findById_file_def findByIdAndUpdate_status_def
  by (rule find_update_first_same) simp

lemma success_webhook_eq:
  assumes "w_type body = Some ''PAYMENT_SUCCESS_WEBHOOK''" and "w_data body = Some dat"
    and "w_order dat = Some ord" and "w_payment dat = Some pd"
    and "findOne_cashfreeOrderId (payments w) (o_cf_order_id ord) = Some p"
    and "method_of (payment_method pd) = Inr m"
    and "save_ok (success_update e pd m p) (payments w)"
  shows "paymentWebhook cfg e body w =
           (Response 200 True ''Webhook processed successfully'' NoBody,
            w\<lparr>payments := update_first (\<lambda>q. pid q = pid p)
                  (\<lambda>_. payout_outcome cfg e (users w) (success_update e pd m p)) (payments w),
               files := findByIdAndUpdate_status (files w) (fileId p) Delivered,
               logs := logs w @ [(Info, ''Payment webhook received:''), (Info, ''Processing payment success:''),
                  (Info, ''Payment completed:'')] @
                  payout_lines cfg (users w) (success_update e pd m p)\<rparr>)"
proof -
  let ?w1 = "logger Info ''Payment webhook received:'' w"
  have f: "findOne_cashfreeOrderId (payments ?w1) (o_cf_order_id ord) = Some p"
    and s: "save_ok (success_update e pd m p) (payments ?w1)"
    using assms by (simp_all add: logger_def)
  show ?thesis using assms(1-4,6) f s
    by (simp add: paymentWebhook_def webhook_try_def Let_def handlePaymentSuccess_def success_body_eq logger_def)
qed

lemma payout_outcome_fields:
  "pid (payout_outcome cfg e us p) = pid p"
  "status (payout_outcome cfg e us p) = status p"
  "cashfreeOrderId (payout_outcome cfg e us p) = cashfreeOrderId p"
  using payout_outcome_only [of p cfg e us] by (simp_all add: only_payout_changed_def)

lemma order_tokens_update_first_id:
  "(i, cashfreeOrderId a) \<in> set (order_tokens ps) \<Longrightarrow> pid a = i \<Longrightarrow> distinct (map pid ps) \<Longrightarrow>
   order_tokens (update_first (\<lambda>q. pid q = i) (\<lambda>_. a) ps) = order_tokens ps"
  using order_tokens_update_first [of a ps] by auto

lemma findOne_in_tokens:
  "findOne_cashfreeOrderId ps t = Some p \<Longrightarrow> (pid p, t) \<in> set (order_tokens ps)"
  by (auto simp: findOne_cashfreeOrderId_def find_Some_iff order_tokens_def)

lemma success_body_tokens:
  assumes "distinct (map pid (payments w))"
  shows "order_tokens (payments (snd (success_body cfg e d w))) = order_tokens (payments w)"
proof -
  have "order_tokens (update_first (\<lambda>q. pid q = pid p)
          (\<lambda>_. payout_outcome cfg e (users w) (success_update e pd m p)) (payments w)) =
        order_tokens (payments w)"
    if "findOne_cashfreeOrderId (payments w) t = Some p" for p t pd m
  proof -
    have "cashfreeOrderId p = t"
      using that by (auto simp: findOne_cashfreeOrderId_def find_Some_iff)
    then show ?thesis
      using findOne_in_tokens [OF that] assms
      by (intro order_tokens_update_first_id) (simp_all add: payout_outcome_fields success_update_fields)
  qed
  then show ?thesis
    by (simp add: success_body_eq split: option.splits sum.splits)
qed

lemma failure_body_tokens:
  assumes "distinct (map pid (payments w))"
  shows "order_tokens (payments (snd (failure_body d w))) = order_tokens (payments w)"
proof -
  have "order_tokens (update_first (\<lambda>q. pid q = pid p)
          (\<lambda>_. p\<lparr>status := Failed, failureReason := r, payoutStatus := PayoutNotRequired\<rparr>) (payments w)) =
        order_tokens (payments w)"
    if "findOne_cashfreeOrderId (payments w) t = Some p" for p t r
  proof -
    have "cashfreeOrderId p = t"
      using that by (auto simp: findOne_cashfreeOrderId_def find_Some_iff)
    then show ?thesis
      using findOne_in_tokens [OF that] assms
      by (intro order_tokens_update_first_id) simp_all
  qed
  then show ?thesis
    by (simp add: failure_body_eq Let_def split: option.splits sum.splits)
qed

lemma dropped_body_tokens:
  assumes "distinct (map pid (payments w))"
  shows "order_tokens (payments (snd (dropped_body d w))) = order_tokens (payments w)"
proof -
  have "order_tokens (update_first (\<lambda>q. pid q = pid p)
          (\<lambda>_. p\<lparr>status := Failed, failureReason := r, payoutStatus := PayoutNotRequired\<rparr>) (payments w)) =
        order_tokens (payments w)"
    if "findOne_cashfreeOrderId (payments w) t = Some p" for p t r
  proof -
    have "cashfreeOrderId p = t"
      using that by (auto simp: findOne_cashfreeOrderId_def find_Some_iff)
    then show ?thesis
      using findOne_in_tokens [OF that] assms
      by (intro order_tokens_update_first_id) simp_all
  qed
  then show ?thesis
    by (simp add: dropped_body_eq Let_def split: option.splits sum.splits)
qed

lemma save_ok_cong:
  "pid a = pid b \<Longrightarrow> fileId a = fileId b \<Longrightarrow> creatorId a = creatorId b \<Longrightarrow>
   clientId a = clientId b \<Longrightarrow> currency a = currency b \<Longrightarrow> amount a = amount b \<Longrightarrow>
   paymentMethod a = paymentMethod b \<Longrightarrow> cashfreeOrderId a = cashfreeOrderId b \<Longrightarrow>
   cashfreePaymentId a = cashfreePaymentId b \<Longrightarrow> transactionId a = transactionId b \<Longrightarrow>
   save_ok a ps = save_ok b ps"
  by (simp add: save_ok_def validate_def duplicate_key_def)

lemma save_ok_success_again:
  assumes "save_ok (success_update e1 pd m p) ps" and "only_payout_changed (success_update e1 pd m p) p1"
  shows "save_ok (success_update e2 pd m p1) ps"
proof -
  have "save_ok (success_update e2 pd m p1) ps = save_ok (success_update e1 pd m p) ps"
    using assms(2) by (intro save_ok_cong) (simp_all add: success_update_def only_payout_changed_def)
  then show ?thesis using assms(1) by simp
qed

lemma payout_triggers_append:
  "payout_triggers (w\<lparr>payments := ps, files := fs, logs := logs w @ ls\<rparr>) =
     payout_triggers w + length (filter (\<lambda>l. snd l \<in> set payout_trigger_lines) ls)"
  by (simp add: payout_triggers_def)

lemma webhook_lines_count:
  "length (filter (\<lambda>l. snd l \<in> set payout_trigger_lines)
     ([(Info, ''Payment webhook received:''), (Info, ''Processing payment success:''),
       (Info, ''Payment completed:'')] @ payout_lines cfg us p)) = 1"
  using payout_lines_count [of cfg us p] by (simp add: payout_trigger_lines_def)

subsection \<open>C2: the commission split\<close>



subsection \<open>C5: the creator of a file\<close>

text \<open>
  C5: when the requester is the file's creator, getDownloadUrl goes straight to the signed
  URL: the answer is the signer's URL (or 500 when the signer itself throws), whatever the
  payments, the price and the visibility of the file are; it is never 402 or 403.
\<close>

theorem creator_always_authorized:
  assumes "findById_file (files w) i = Some fl" and "f_creatorId fl = u_id usr"
  shows "fst (getDownloadUrl sign i usr w) =
     (case sign (f_s3Key fl) 3600 of
        Inl err \<Rightarrow> Response 500 False ''Failed to generate download URL'' NoBody
      | Inr url \<Rightarrow> Response 200 True ''Download URL generated successfully'' (DownloadUrl url))"
  using assms by (simp add: getDownloadUrl_def fst_send_download_url)

text \<open>Alice has paid nothing and downloads her own priced photo.\<close>

theorem creator_always_authorized_witness:
  "findById_file (files reordered) ''f1'' = Some (photo\<lparr>f_status := Delivered\<rparr>) \<and>
   f_creatorId (photo\<lparr>f_status := Delivered\<rparr>) = u_id alice \<and>
   filter (\<lambda>p. clientId p = u_id alice) (payments reordered) = [] \<and>
   fst (getDownloadUrl signer ''f1'' alice reordered) =
     Response 200 True ''Download URL generated successfully'' (DownloadUrl ''https://r2.test/files/k1'')"
proof -
  have a: "findById_file (files reordered) ''f1'' = Some (photo\<lparr>f_status := Delivered\<rparr>)"
    by code_simp
  have b: "f_creatorId (photo\<lparr>f_status := Delivered\<rparr>) = u_id alice" by code_simp
  have c: "filter (\<lambda>p. clientId p = u_id alice) (payments reordered) = []" by code_simp
  have d: "signer (f_s3Key (photo\<lparr>f_status := Delivered\<rparr>)) 3600 = Inr ''https://r2.test/files/k1''"
    by code_simp
  show ?thesis using creator_always_authorized [OF a b, of signer] a b c d by simp
qed

subsection \<open>C4: a paid public file and a requester who is not its creator\<close>

text \<open>
  C4 as stated fails: the query of line 1210 asks for any completed payment of the pair,
  not for the most recent one. Bob paid for the photo and then ordered it again; his most
  recent intent is pending, and he is still given the URL.
\<close>

theorem paid_download_counterexample:
  "fst (getDownloadUrl signer ''f1'' bob reordered) =
     Response 200 True ''Download URL generated successfully'' (DownloadUrl ''https://r2.test/files/k1'') \<and>
   map_option status (spec_most_recent_intent (payments reordered) ''f1'' ''u2'') = Some Pending \<and>
   \<not> spec_paid_download_authorized (payments reordered) ''f1'' ''u2''"
  by code_simp

text \<open>
  C4, amended: for a requester who is not the creator and a public file with a price above
  zero, the answer is the signed URL if and only if some payment of that file by that
  requester is completed; otherwise it is 402 with the file's price.
\<close>

theorem paid_download_decision:
  assumes "findById_file (files w) i = Some fl" and "f_creatorId fl \<noteq> u_id usr"
    and "f_isPublic fl" and "0 < f_price fl"
  shows "fst (getDownloadUrl sign i usr w) =
     (if list_ex (\<lambda>p. fileId p = f_id fl \<and> clientId p = u_id usr \<and> status p = Completed) (payments w)
      then (case sign (f_s3Key fl) 3600 of
              Inl err \<Rightarrow> Response 500 False ''Failed to generate download URL'' NoBody
            | Inr url \<Rightarrow> Response 200 True ''Download URL generated successfully'' (DownloadUrl url))
      else Response 402 False ''Payment required to download this file''
             (RequiresPayment (f_price fl) (js_or_default (Some (f_currency fl)) ''INR'')))"
proof (cases "findOne_completed (payments w) (f_id fl) (u_id usr)")
  case None
  then have "\<not> list_ex (\<lambda>p. fileId p = f_id fl \<and> clientId p = u_id usr \<and> status p = Completed) (payments w)"
    by (simp add: findOne_completed_def find_None_iff list_ex_iff)
  with None assms show ?thesis by (simp add: getDownloadUrl_def)
next
  case (Some p)
  then have "list_ex (\<lambda>p. fileId p = f_id fl \<and> clientId p = u_id usr \<and> status p = Completed) (payments w)"
    by (auto simp: findOne_completed_def find_Some_iff list_ex_iff)
  with Some assms show ?thesis by (simp add: getDownloadUrl_def fst_send_download_url)
qed

text \<open>Bob is asked for 500 while his order of the photo is pending.\<close>

theorem paid_download_decision_witness:
  "findById_file (files ordered) ''f1'' = Some photo \<and> f_creatorId photo \<noteq> u_id bob \<and>
   f_isPublic photo \<and> 0 < f_price photo \<and>
   fst (getDownloadUrl signer ''f1'' bob ordered) =
     Response 402 False ''Payment required to download this file'' (RequiresPayment 500 ''INR'')"
proof -
  have a: "findById_file (files ordered) ''f1'' = Some photo" by code_simp
  have b: "f_creatorId photo \<noteq> u_id bob" by code_simp
  have c: "f_isPublic photo" by code_simp
  have d: "0 < f_price photo" by code_simp
  have e: "\<not> list_ex (\<lambda>p. fileId p = f_id photo \<and> clientId p = u_id bob \<and> status p = Completed)
              (payments ordered)" by code_simp
  have f: "RequiresPayment (f_price photo) (js_or_default (Some (f_currency photo)) ''INR'') =
             RequiresPayment 500 ''INR''" by code_simp
  show ?thesis using paid_download_decision [OF a b c d, of signer] a b c d e f by simp
qed

subsection \<open>C3: a gateway error during order creation\<close>

text \<open>
  C3: when every check of createPaymentOrder has passed, the Pending payment \<open>p\<close> has been
  inserted and the gateway call throws, the answer is 500 "Failed to create payment order"
  and the record is deleted again: the payments are what they were before the request, and
  no payment with the new id is stored.
\<close>

theorem gateway_error_rolls_back:
  assumes "errs = []" and "CASHFREE_CONFIGURED cfg"
    and "findById_file (files w) fileId' = Some fl"
    and "f_isPublic fl" and "0 < f_price fl" and "f_creatorId fl \<noteq> u_id usr"
    and "findById_user (users w) (f_creatorId fl) = Some creator"
    and "save_new e (new_Payment cfg e fl creator usr) (payments w) = Inr (p, ps)"
    and "gw (orderRequest cfg p fl creator usr) = Inl err"
  shows "status p = Pending \<and> pid p = objectId e \<and> p \<in> set ps \<and>
         (\<exists>body. fst (createPaymentOrder cfg gw e errs fileId' usr w) =
            Response 500 False ''Failed to create payment order'' body) \<and>
         payments (snd (createPaymentOrder cfg gw e errs fileId' usr w)) = payments w \<and>
         find (\<lambda>q. pid q = objectId e) (payments (snd (createPaymentOrder cfg gw e errs fileId' usr w))) = None"
proof -
  from save_new_Inr [OF assms(8)] have
    p: "p = pre_save e True (new_Payment cfg e fl creator usr)" and ps: "ps = payments w @ [p]"
    and fresh: "\<not> list_ex (\<lambda>q. pid q = pid p) (payments w)" by blast+
  have pidp: "pid p = objectId e" and st: "status p = Pending"
    unfolding p by (simp_all add: pre_save_fields new_Payment_def)
  let ?w1 = "logger Info ''Amount:'' (logger Info ''Payment record created:'' (w\<lparr>payments := ps\<rparr>))"
  have run: "createPaymentOrder cfg gw e errs fileId' usr w = place_order cfg gw p fl creator usr ?w1"
    using assms by (simp add: createPaymentOrder_def)
  have po: "place_order cfg gw p fl creator usr ?w1 =
              order_failed err p (logger Info ''Creating Cashfree order:'' ?w1)"
    using assms(9) by (simp add: place_order_def Let_def)
  have del: "findByIdAndDelete ps (pid p) = payments w"
    unfolding ps findByIdAndDelete_def using fresh by (simp add: delete_first_append_last)
  have pay: "payments (snd (createPaymentOrder cfg gw e errs fileId' usr w)) = payments w"
    unfolding run po by (simp add: order_failed_payments logger_def del)
  have resp: "\<exists>body. fst (createPaymentOrder cfg gw e errs fileId' usr w) =
            Response 500 False ''Failed to create payment order'' body"
    unfolding run po by (rule order_failed_payments)
  have none: "find (\<lambda>q. pid q = objectId e) (payments w) = None"
    using fresh pidp by (simp add: find_None_iff list_ex_iff)
  show ?thesis using st pidp ps pay resp none by simp
qed

text \<open>Bob orders the photo while the gateway is down.\<close>

theorem gateway_error_rolls_back_witness:
  "save_new (at_time 17 ''p1'') (new_Payment live (at_time 17 ''p1'') photo alice bob) (payments shop) =
     Inr (photo_order, [photo_order]) \<and>
   gateway_down (orderRequest live photo_order photo alice bob) = Inl (GatewayError None) \<and>
   status photo_order = Pending \<and>
   fst (createPaymentOrder live gateway_down (at_time 17 ''p1'') [] ''f1'' bob shop) =
     Response 500 False ''Failed to create payment order'' (ErrorText ''Payment gateway error'') \<and>
   payments (snd (createPaymentOrder live gateway_down (at_time 17 ''p1'') [] ''f1'' bob shop)) = []"
proof -
  have h1: "([] :: string list) = []" by simp
  have h2: "CASHFREE_CONFIGURED live" by code_simp
  have h3: "findById_file (files shop) ''f1'' = Some photo" by code_simp
  have h4: "f_isPublic photo" by code_simp
  have h5: "0 < f_price photo" by code_simp
  have h6: "f_creatorId photo \<noteq> u_id bob" by code_simp
  have h7: "findById_user (users shop) (f_creatorId photo) = Some alice" by code_simp
  have h8: "save_new (at_time 17 ''p1'') (new_Payment live (at_time 17 ''p1'') photo alice bob) (payments shop) =
     Inr (photo_order, [photo_order])" by code_simp
  have h9: "gateway_down (orderRequest live photo_order photo alice bob) = Inl (GatewayError None)"
    by code_simp
  have v: "fst (createPaymentOrder live gateway_down (at_time 17 ''p1'') [] ''f1'' bob shop) =
     Response 500 False ''Failed to create payment order'' (ErrorText ''Payment gateway error'')"
    "payments shop = []" by code_simp+
  show ?thesis
    using gateway_error_rolls_back [where gw = gateway_down and err = "GatewayError None",
        OF h1 h2 h3 h4 h5 h6 h7 h8 h9] h8 h9 v by simp
qed

subsection \<open>C6: an event for an unknown order\<close>

text \<open>
  C6: when the order id an event carries matches no stored payment, the endpoint answers
  200, the payments and the files are left as they were, and the log has grown by the line
  of the received event (and whatever the handler logs after it).
\<close>

theorem unknown_order_discarded:
  assumes "cfOrderId_of body = Some v" and "findOne_cashfreeOrderId (payments w) v = None"
  shows "fst (paymentWebhook cfg e body w) = Response 200 True ''Webhook processed successfully'' NoBody \<and>
         payments (snd (paymentWebhook cfg e body w)) = payments w \<and>
         files (snd (paymentWebhook cfg e body w)) = files w \<and>
         (\<exists>es. logs (snd (paymentWebhook cfg e body w)) = logs w @ (Info, ''Payment webhook received:'') # es)"
proof -
  obtain dat ord where d: "w_data body = Some dat" "w_order dat = Some ord" "o_cf_order_id ord = v"
    using assms(1) by (auto simp: cfOrderId_of_def split: option.splits)
  let ?w1 = "logger Info ''Payment webhook received:'' w"
  have f: "findOne_cashfreeOrderId (payments ?w1) (o_cf_order_id ord) = None"
    using assms(2) d by (simp add: logger_def)
  show ?thesis using d f
    by (simp add: paymentWebhook_def webhook_try_def Let_def handlePaymentSuccess_def handlePaymentFailure_def
        handlePaymentDropped_def success_body_eq failure_body_eq dropped_body_eq logger_def)
qed

text \<open>A success event for the unknown order \<open>cf_9999\<close> arrives after Bob's order.\<close>

theorem unknown_order_discarded_witness:
  "cfOrderId_of (success_event ''cf_9999'') = Some (Some ''cf_9999'') \<and>
   findOne_cashfreeOrderId (payments ordered) (Some ''cf_9999'') = None \<and>
   fst (paymentWebhook live (at_time 23 ''-'') (success_event ''cf_9999'') ordered) =
     Response 200 True ''Webhook processed successfully'' NoBody \<and>
   payments (snd (paymentWebhook live (at_time 23 ''-'') (success_event ''cf_9999'') ordered)) =
     payments ordered \<and>
   logs (snd (paymentWebhook live (at_time 23 ''-'') (success_event ''cf_9999'') ordered)) =
     logs ordered @ [(Info, ''Payment webhook received:''), (Info, ''Processing payment success:''),
                     (Error, ''Payment record not found for Cashfree order:'')]"
proof -
  have h1: "cfOrderId_of (success_event ''cf_9999'') = Some (Some ''cf_9999'')" by code_simp
  have h2: "findOne_cashfreeOrderId (payments ordered) (Some ''cf_9999'') = None" by code_simp
  have v: "logs (snd (paymentWebhook live (at_time 23 ''-'') (success_event ''cf_9999'') ordered)) =
     logs ordered @ [(Info, ''Payment webhook received:''), (Info, ''Processing payment success:''),
                     (Error, ''Payment record not found for Cashfree order:'')]" by code_simp
  show ?thesis
    using unknown_order_discarded [OF h1 h2, of live "at_time 23 ''-''"] h1 h2 v by simp
qed

subsection \<open>C7: the endpoint always acknowledges\<close>

text \<open>
  C7: every delivery of every sequence of events is answered 200 "Webhook processed
  successfully", whatever the events before it were; and an event whose handler ends in
  an exception is answered 200 as well and leaves the payments and the files untouched,
  so the events after it meet the store they would have met without it.
\<close>

theorem webhook_always_acknowledged:
  "fst (deliver cfg evs w) = map (\<lambda>_. Response 200 True ''Webhook processed successfully'' NoBody) evs \<and>
   (handler_exception cfg e body w \<noteq> None \<longrightarrow>
      fst (paymentWebhook cfg e body w) = Response 200 True ''Webhook processed successfully'' NoBody \<and>
      payments (snd (paymentWebhook cfg e body w)) = payments w \<and>
      files (snd (paymentWebhook cfg e body w)) = files w)"
proof -
  let ?w1 = "logger Info ''Payment webhook received:'' w"
  have w1: "payments ?w1 = payments w" "files ?w1 = files w" by (simp_all add: logger_def)
  have "handler_exception cfg e body w \<noteq> None \<Longrightarrow>
      payments (snd (paymentWebhook cfg e body w)) = payments w \<and>
      files (snd (paymentWebhook cfg e body w)) = files w"
    using success_body_exception [of cfg e "w_data body" ?w1]
      failure_body_exception [of "w_data body" ?w1] dropped_body_exception [of "w_data body" ?w1] w1
    by (auto simp: handler_exception_def paymentWebhook_def webhook_try_def Let_def handler_worlds split: if_splits)
  then show ?thesis using fst_deliver fst_paymentWebhook by blast
qed

text \<open>
  A success event without payment data makes the handler throw; it is acknowledged, and
  the complete event that follows it settles the payment.
\<close>

theorem webhook_always_acknowledged_witness:
  "handler_exception live (at_time 23 ''-'') (bare_success_event ''cf_1001'') ordered = Some TypeError \<and>
   fst (deliver live [(at_time 23 ''-'', bare_success_event ''cf_1001''),
                      (at_time 29 ''-'', success_event ''cf_1001'')] ordered) =
     [Response 200 True ''Webhook processed successfully'' NoBody,
      Response 200 True ''Webhook processed successfully'' NoBody] \<and>
   payments (snd (paymentWebhook live (at_time 23 ''-'') (bare_success_event ''cf_1001'') ordered)) =
     payments ordered \<and>
   map status (payments (snd (deliver live [(at_time 23 ''-'', bare_success_event ''cf_1001''),
                      (at_time 29 ''-'', success_event ''cf_1001'')] ordered))) = [Completed]"
proof -
  have h: "handler_exception live (at_time 23 ''-'') (bare_success_event ''cf_1001'') ordered = Some TypeError"
    by code_simp
  have v: "map status (payments (snd (deliver live [(at_time 23 ''-'', bare_success_event ''cf_1001''),
                      (at_time 29 ''-'', success_event ''cf_1001'')] ordered))) = [Completed]"
    by code_simp
  show ?thesis
    using webhook_always_acknowledged [of live "[(at_time 23 ''-'', bare_success_event ''cf_1001''),
        (at_time 29 ''-'', success_event ''cf_1001'')]" ordered "at_time 23 ''-''"
        "bare_success_event ''cf_1001''"] h v
    by simp
qed

subsection \<open>C8: a creator without a payout destination\<close>

text \<open>
  C8 as stated fails: processCreatorPayout first asks whether the gateway is configured
  (line 237). When it is not, the settlement of a payment whose creator has neither phone
  nor UPI id ends with payoutStatus not_required, not failed.
\<close>

theorem unconfigured_payout_counterexample:
  "payments sketch_ordered = [sketch_payment] \<and>
   findById_user (users sketch_ordered) (creatorId sketch_payment) = Some carol \<and>
   \<not> truthy (u_phone carol) \<and> \<not> truthy (u_upiId carol) \<and>
   map (\<lambda>p. (status p, payoutStatus p, payoutFailureReason p))
     (payments (snd (paymentWebhook unconfigured (at_time 43 ''-'') (success_event ''cf_2001'') sketch_ordered))) =
     [(Completed, PayoutNotRequired, None)]"
  by code_simp

text \<open>
  C8, amended: when the gateway is configured, for every settled payment (one that can be
  saved) whose creator exists and has neither a phone number nor a UPI id, the payout
  trigger stores payoutStatus failed with the reason "Creator UPI details missing", logs
  the one warning and returns: it dispatches nothing and does not retry.
\<close>

theorem missing_destination_fails_payout:
  assumes "CASHFREE_CONFIGURED cfg"
    and "findById_user (users w) (creatorId p) = Some creator"
    and "\<not> truthy (u_phone creator)" and "\<not> truthy (u_upiId creator)"
    and "save_ok p (payments w)"
  shows "processCreatorPayout cfg e p w =
           (None, w\<lparr>payments := update_first (\<lambda>q. pid q = pid p)
                       (\<lambda>_. p\<lparr>payoutStatus := PayoutFailed,
                               payoutFailureReason := Some ''Creator UPI details missing''\<rparr>) (payments w),
                     logs := logs w @ [(Warn, ''Creator has no UPI phone/ID, skipping payout'')]\<rparr>)"
  using assms by (simp add: processCreatorPayout_ok payout_outcome_def payout_lines_def)

text \<open>The payout for Carol's sketch, with the gateway configured.\<close>

theorem missing_destination_fails_payout_witness:
  "CASHFREE_CONFIGURED live \<and>
   findById_user (users sketch_settled) (creatorId sketch_paid) = Some carol \<and>
   \<not> truthy (u_phone carol) \<and> \<not> truthy (u_upiId carol) \<and>
   save_ok sketch_paid (payments sketch_settled) \<and>
   map (\<lambda>q. (payoutStatus q, payoutFailureReason q))
     (payments (snd (processCreatorPayout live (at_time 43 ''-'') sketch_paid sketch_settled))) =
     [(PayoutFailed, Some ''Creator UPI details missing'')] \<and>
   logs (snd (processCreatorPayout live (at_time 43 ''-'') sketch_paid sketch_settled)) =
     logs sketch_settled @ [(Warn, ''Creator has no UPI phone/ID, skipping payout'')]"
proof -
  have h1: "CASHFREE_CONFIGURED live" by code_simp
  have h2: "findById_user (users sketch_settled) (creatorId sketch_paid) = Some carol" by code_simp
  have h3: "\<not> truthy (u_phone carol)" by code_simp
  have h4: "\<not> truthy (u_upiId carol)" by code_simp
  have h5: "save_ok sketch_paid (payments sketch_settled)" by code_simp
  have v: "map (\<lambda>q. (payoutStatus q, payoutFailureReason q))
     (update_first (\<lambda>q. pid q = pid sketch_paid)
        (\<lambda>_. sketch_paid\<lparr>payoutStatus := PayoutFailed,
               payoutFailureReason := Some ''Creator UPI details missing''\<rparr>) (payments sketch_settled)) =
     [(PayoutFailed, Some ''Creator UPI details missing'')]" by code_simp
  show ?thesis
    using missing_destination_fails_payout [OF h1 h2 h3 h4 h5, of "at_time 43 ''-''"] h1 h2 h3 h4 h5 v
    by simp
qed

subsection \<open>C9: the order token\<close>

text \<open>
  C9 as stated fails: the order id that the pre-save hook assigns when the record is
  inserted is replaced by the gateway's \<open>cf_order_id\<close> later in the same
  createPaymentOrder (lines 129-131).
\<close>

theorem order_token_replaced_counterexample:
  "map_sum id (\<lambda>r. cashfreeOrderId (fst r))
     (save_new (at_time 17 ''p1'') (new_Payment live (at_time 17 ''p1'') photo alice bob) (payments shop)) =
     Inr (Some ''uplink_17_k3x9'') \<and>
   order_tokens (payments ordered) = [(''p1'', Some ''cf_1001'')]"
  by code_simp

text \<open>
  C9, amended: once createPaymentOrder has stored the gateway's \<open>cf_order_id\<close> (which
  replaces the id the pre-save hook assigned at insertion), webhook processing (a success,
  failure or dropped event, and the payout) never changes the order id of any stored
  payment. Document ids are unique, as the database guarantees.
\<close>

theorem webhook_keeps_order_tokens:
  assumes "distinct (map pid (payments w))"
  shows "order_tokens (payments (snd (paymentWebhook cfg e body w))) = order_tokens (payments w)"
proof -
  let ?w1 = "logger Info ''Payment webhook received:'' w"
  have d: "distinct (map pid (payments ?w1))" and p: "payments ?w1 = payments w"
    using assms by (simp_all add: logger_def)
  show ?thesis
    using success_body_tokens [OF d, of cfg e "w_data body"] failure_body_tokens [OF d, of "w_data body"]
      dropped_body_tokens [OF d, of "w_data body"] p
    by (simp add: paymentWebhook_def webhook_try_def Let_def handler_worlds)
qed

text \<open>The success event for Bob's order leaves \<open>cf_1001\<close> in place.\<close>

theorem webhook_keeps_order_tokens_witness:
  "distinct (map pid (payments ordered)) \<and>
   order_tokens (payments (snd (paymentWebhook live (at_time 23 ''-'') (success_event ''cf_1001'') ordered))) =
     [(''p1'', Some ''cf_1001'')] \<and>
   map status (payments (snd (paymentWebhook live (at_time 23 ''-'') (success_event ''cf_1001'') ordered))) =
     [Completed]"
proof -
  have h: "distinct (map pid (payments ordered))" by code_simp
  have v: "order_tokens (payments ordered) = [(''p1'', Some ''cf_1001'')]"
    "map status (payments (snd (paymentWebhook live (at_time 23 ''-'') (success_event ''cf_1001'') ordered))) =
     [Completed]" by code_simp+
  show ?thesis
    using webhook_keeps_order_tokens [OF h, of live "at_time 23 ''-''" "success_event ''cf_1001''"] h v
    by simp
qed

subsection \<open>C10: the file of a settled payment\<close>

text \<open>
  C10 as stated fails: the file is updated only after the payment was saved. A success
  event that names a stored payment and carries no \<open>payment\<close> object throws at line 215,
  before the save: the payment stays pending and the file keeps its status.
\<close>

theorem success_without_payment_data_counterexample:
  "w_type (bare_success_event ''cf_1001'') = Some ''PAYMENT_SUCCESS_WEBHOOK'' \<and>
   cfOrderId_of (bare_success_event ''cf_1001'') = Some (Some ''cf_1001'') \<and>
   map_option pid (findOne_cashfreeOrderId (payments ordered) (Some ''cf_1001'')) = Some ''p1'' \<and>
   map status (payments (snd (paymentWebhook live (at_time 23 ''-'') (bare_success_event ''cf_1001'') ordered))) =
     [Pending] \<and>
   map f_status (files (snd (paymentWebhook live (at_time 23 ''-'') (bare_success_event ''cf_1001'') ordered))) =
     [Ready, Ready]"
  by code_simp

text \<open>
  C10, amended: for every success event that matches a stored payment and whose payment
  data is saved (the \<open>payment\<close> object is present, its method is absent or a string, and the
  updated record passes the save), the handler, besides storing the payment as completed,
  sets the status of the File the payment refers to, if there is one, to delivered, and
  changes no other file.
\<close>

theorem success_event_marks_file_delivered:
  assumes "w_type body = Some ''PAYMENT_SUCCESS_WEBHOOK''" and "w_data body = Some dat"
    and "w_order dat = Some ord" and "w_payment dat = Some pd"
    and "findOne_cashfreeOrderId (payments w) (o_cf_order_id ord) = Some p"
    and "method_of (payment_method pd) = Inr m"
    and "save_ok (success_update e pd m p) (payments w)"
  shows "files (snd (paymentWebhook cfg e body w)) = findByIdAndUpdate_status (files w) (fileId p) Delivered \<and>
         findById_file (files (snd (paymentWebhook cfg e body w))) (fileId p) =
           map_option (\<lambda>f. f\<lparr>f_status := Delivered\<rparr>) (findById_file (files w) (fileId p)) \<and>
         (\<exists>q. findOne_cashfreeOrderId (payments (snd (paymentWebhook cfg e body w))) (o_cf_order_id ord) = Some q \<and>
              pid q = pid p \<and> status q = Completed)"
proof -
  let ?q = "payout_outcome cfg e (users w) (success_update e pd m p)"
  have tok: "cashfreeOrderId p = o_cf_order_id ord"
    using assms(5) by (auto simp: findOne_cashfreeOrderId_def find_Some_iff)
  have q: "cashfreeOrderId ?q = o_cf_order_id ord" "pid ?q = pid p" "status ?q = Completed"
    by (simp_all add: payout_outcome_fields success_update_fields tok)
  have "find (\<lambda>q. cashfreeOrderId q = o_cf_order_id ord)
          (update_first (\<lambda>q. pid q = pid p) (\<lambda>_. ?q) (payments w)) = Some ?q"
    using assms(5) q by (intro find_update_first) (simp_all add: findOne_cashfreeOrderId_def)
  then show ?thesis using q
    by (simp add: success_webhook_eq [OF assms] findById_file_updated findOne_cashfreeOrderId_def)
qed

text \<open>The success event for Bob's order: the photo is delivered, the sketch is not touched.\<close>

theorem success_event_marks_file_delivered_witness:
  "findOne_cashfreeOrderId (payments ordered) (o_cf_order_id (order_of ''cf_1001'')) = Some photo_payment \<and>
   method_of (payment_method (payment_of ''cf_1001'')) = Inr ''upi'' \<and>
   save_ok (success_update (at_time 23 ''-'') (payment_of ''cf_1001'') ''upi'' photo_payment) (payments ordered) \<and>
   map f_status (files ordered) = [Ready, Ready] \<and>
   map f_status (files (snd (paymentWebhook live (at_time 23 ''-'') (success_event ''cf_1001'') ordered))) =
     [Delivered, Ready] \<and>
   map status (payments (snd (paymentWebhook live (at_time 23 ''-'') (success_event ''cf_1001'') ordered))) =
     [Completed]"
proof -
  have h1: "w_type (success_event ''cf_1001'') = Some ''PAYMENT_SUCCESS_WEBHOOK''" by code_simp
  have h2: "w_data (success_event ''cf_1001'') =
              Some \<lparr>w_order = Some (order_of ''cf_1001''), w_payment = Some (payment_of ''cf_1001'')\<rparr>"
    by code_simp
  have h3: "w_order \<lparr>w_order = Some (order_of ''cf_1001''), w_payment = Some (payment_of ''cf_1001'')\<rparr> =
              Some (order_of ''cf_1001'')" by simp
  have h4: "w_payment \<lparr>w_order = Some (order_of ''cf_1001''), w_payment = Some (payment_of ''cf_1001'')\<rparr> =
              Some (payment_of ''cf_1001'')" by simp
  have h5: "findOne_cashfreeOrderId (payments ordered) (o_cf_order_id (order_of ''cf_1001'')) =
              Some photo_payment" by code_simp
  have h6: "method_of (payment_method (payment_of ''cf_1001'')) = Inr ''upi''" by code_simp
  have h7: "save_ok (success_update (at_time 23 ''-'') (payment_of ''cf_1001'') ''upi'' photo_payment)
              (payments ordered)" by code_simp
  have v: "map f_status (files ordered) = [Ready, Ready]"
    "map f_status (findByIdAndUpdate_status (files ordered) (fileId photo_payment) Delivered) =
       [Delivered, Ready]"
    "map status (payments (snd (paymentWebhook live (at_time 23 ''-'') (success_event ''cf_1001'') ordered))) =
     [Completed]" by code_simp+
  show ?thesis
    using success_event_marks_file_delivered [OF h1 h2 h3 h4 h5 h6 h7, of live] h5 h6 h7 v by simp
qed

subsection \<open>C1: events for a payment in a terminal state\<close>

text \<open>
  C1 as stated fails: no handler looks at the current state of the payment it found. The
  same success event delivered twice runs the payout twice (the second run replaces the
  payout id of the first), and a failure event turns a completed payment into a failed
  one.
\<close>

theorem duplicate_success_counterexample:
  "map status (payments ordered) = [Pending] \<and>
   payout_triggers ordered = 0 \<and>
   payout_triggers (snd (deliver live [(at_time 23 ''-'', success_event ''cf_1001''),
                                        (at_time 29 ''-'', success_event ''cf_1001'')] ordered)) = 2 \<and>
   map payoutId (payments paid) = [Some ''payout_23_k3x9''] \<and>
   map payoutId (payments (snd (paymentWebhook live (at_time 29 ''-'') (success_event ''cf_1001'') paid))) =
     [Some ''payout_29_k3x9''] \<and>
   map status (payments paid) = [Completed] \<and>
   map status (payments (snd (paymentWebhook live (at_time 29 ''-'') (failure_event ''cf_1001'') paid))) = [Failed]"
  by code_simp

text \<open>
  C1, amended: a success event that matches a stored payment and whose payment data can be
  saved is applied whatever the state of the payment is. Delivered twice, it is answered
  200 both times, adds and removes no record, leaves the one record of the order in state
  completed, and runs the payout trigger once per delivery, twice in all.
\<close>

theorem success_event_twice:
  assumes "w_type body = Some ''PAYMENT_SUCCESS_WEBHOOK''" and "w_data body = Some dat"
    and "w_order dat = Some ord" and "w_payment dat = Some pd"
    and "findOne_cashfreeOrderId (payments w) (o_cf_order_id ord) = Some p"
    and "method_of (payment_method pd) = Inr m"
    and "save_ok (success_update e1 pd m p) (payments w)"
  shows "fst (deliver cfg [(e1, body), (e2, body)] w) =
           [Response 200 True ''Webhook processed successfully'' NoBody,
            Response 200 True ''Webhook processed successfully'' NoBody] \<and>
         map pid (payments (snd (deliver cfg [(e1, body), (e2, body)] w))) = map pid (payments w) \<and>
         (\<exists>q. findOne_cashfreeOrderId (payments (snd (deliver cfg [(e1, body), (e2, body)] w)))
                (o_cf_order_id ord) = Some q \<and> pid q = pid p \<and> status q = Completed) \<and>
         payout_triggers (snd (paymentWebhook cfg e1 body w)) = payout_triggers w + 1 \<and>
         payout_triggers (snd (deliver cfg [(e1, body), (e2, body)] w)) = payout_triggers w + 2"
proof -
  let ?t = "o_cf_order_id ord"
  let ?p1 = "payout_outcome cfg e1 (users w) (success_update e1 pd m p)"
  let ?l1 = "[(Info, ''Payment webhook received:''), (Info, ''Processing payment success:''),
                  (Info, ''Payment completed:'')] @ payout_lines cfg (users w) (success_update e1 pd m p)"
  let ?w1 = "w\<lparr>payments := update_first (\<lambda>q. pid q = pid p) (\<lambda>_. ?p1) (payments w),
               files := findByIdAndUpdate_status (files w) (fileId p) Delivered,
               logs := logs w @ ?l1\<rparr>"
  have first: "paymentWebhook cfg e1 body w =
      (Response 200 True ''Webhook processed successfully'' NoBody, ?w1)"
    by (rule success_webhook_eq [OF assms])
  have tok: "cashfreeOrderId p = ?t"
    using assms(5) by (auto simp: findOne_cashfreeOrderId_def find_Some_iff)
  have p1: "pid ?p1 = pid p" "cashfreeOrderId ?p1 = ?t" "fileId ?p1 = fileId p"
    using payout_outcome_only [of "success_update e1 pd m p" cfg e1 "users w"]
    by (simp_all add: only_payout_changed_def success_update_fields tok)
  have found1: "findOne_cashfreeOrderId (payments ?w1) ?t = Some ?p1"
    using find_update_first [of ?t "payments w" p ?p1] assms(5) p1
    by (simp add: findOne_cashfreeOrderId_def)
  have "save_ok (success_update e2 pd m ?p1) (payments w)"
    using save_ok_success_again [OF assms(7) payout_outcome_only] .
  then have ok1: "save_ok (success_update e2 pd m ?p1) (payments ?w1)"
    using p1 by (simp add: save_ok_update_first_id success_update_fields)
  let ?p2 = "payout_outcome cfg e2 (users ?w1) (success_update e2 pd m ?p1)"
  let ?l2 = "[(Info, ''Payment webhook received:''), (Info, ''Processing payment success:''),
                  (Info, ''Payment completed:'')] @ payout_lines cfg (users ?w1) (success_update e2 pd m ?p1)"
  let ?w2 = "?w1\<lparr>payments := update_first (\<lambda>q. pid q = pid ?p1) (\<lambda>_. ?p2) (payments ?w1),
               files := findByIdAndUpdate_status (files ?w1) (fileId ?p1) Delivered,
               logs := logs ?w1 @ ?l2\<rparr>"
  have second: "paymentWebhook cfg e2 body ?w1 =
      (Response 200 True ''Webhook processed successfully'' NoBody, ?w2)"
    by (rule success_webhook_eq [OF assms(1-4) found1 assms(6) ok1])
  have run: "deliver cfg [(e1, body), (e2, body)] w =
      ([Response 200 True ''Webhook processed successfully'' NoBody,
        Response 200 True ''Webhook processed successfully'' NoBody], ?w2)"
    by (simp only: deliver.simps first second prod.case)
  have p2: "pid ?p2 = pid p" "cashfreeOrderId ?p2 = ?t" "status ?p2 = Completed"
    using payout_outcome_only [of "success_update e2 pd m ?p1" cfg e2 "users ?w1"] p1
    by (simp_all add: only_payout_changed_def success_update_fields)
  have ids: "map pid (payments ?w2) = map pid (payments w)"
    using p1 p2 by (simp add: map_pid_update_first)
  have found2: "findOne_cashfreeOrderId (payments ?w2) ?t = Some ?p2"
    using find_update_first [of ?t "payments ?w1" ?p1 ?p2] found1 p1 p2
    by (simp add: findOne_cashfreeOrderId_def)
  have t1: "payout_triggers ?w1 = payout_triggers w + 1"
    unfolding payout_triggers_append webhook_lines_count by simp
  have t2: "payout_triggers ?w2 = payout_triggers ?w1 + 1"
    unfolding payout_triggers_append webhook_lines_count by simp
  show ?thesis
    unfolding run using ids found2 p2 t1 t2 first by (simp del: append.simps)
qed

text \<open>The success event for Bob's order, delivered at 23 and again at 29.\<close>

theorem success_event_twice_witness:
  "findOne_cashfreeOrderId (payments ordered) (o_cf_order_id (order_of ''cf_1001'')) = Some photo_payment \<and>
   save_ok (success_update (at_time 23 ''-'') (payment_of ''cf_1001'') ''upi'' photo_payment) (payments ordered) \<and>
   map pid (payments ordered) = [''p1''] \<and>
   map (\<lambda>q. (pid q, status q))
     (payments (snd (deliver live [(at_time 23 ''-'', success_event ''cf_1001''),
                                    (at_time 29 ''-'', success_event ''cf_1001'')] ordered))) =
     [(''p1'', Completed)] \<and>
   payout_triggers ordered = 0 \<and>
   payout_triggers (snd (deliver live [(at_time 23 ''-'', success_event ''cf_1001''),
                                        (at_time 29 ''-'', success_event ''cf_1001'')] ordered)) = 2"
proof -
  have h1: "w_type (success_event ''cf_1001'') = Some ''PAYMENT_SUCCESS_WEBHOOK''" by code_simp
  have h2: "w_data (success_event ''cf_1001'') =
              Some \<lparr>w_order = Some (order_of ''cf_1001''), w_payment = Some (payment_of ''cf_1001'')\<rparr>"
    by code_simp
  have h3: "w_order \<lparr>w_order = Some (order_of ''cf_1001''), w_payment = Some (payment_of ''cf_1001'')\<rparr> =
              Some (order_of ''cf_1001'')" by simp
  have h4: "w_payment \<lparr>w_order = Some (order_of ''cf_1001''), w_payment = Some (payment_of ''cf_1001'')\<rparr> =
              Some (payment_of ''cf_1001'')" by simp
  have h5: "findOne_cashfreeOrderId (payments ordered) (o_cf_order_id (order_of ''cf_1001'')) =
              Some photo_payment" by code_simp
  have h6: "method_of (payment_method (payment_of ''cf_1001'')) = Inr ''upi''" by code_simp
  have h7: "save_ok (success_update (at_time 23 ''-'') (payment_of ''cf_1001'') ''upi'' photo_payment)
              (payments ordered)" by code_simp
  have v: "map pid (payments ordered) = [''p1'']" "payout_triggers ordered = 0"
    "map (\<lambda>q. (pid q, status q))
     (payments (snd (deliver live [(at_time 23 ''-'', success_event ''cf_1001''),
                                    (at_time 29 ''-'', success_event ''cf_1001'')] ordered))) =
     [(''p1'', Completed)]" by code_simp+
  show ?thesis
    using success_event_twice [OF h1 h2 h3 h4 h5 h6 h7, of live "at_time 29 ''-''"] h5 h7 v by simp
qed

end
